theory Spec2Isabelle
  imports Main "HOL-Library.Sublist" "HOL-Library.AList"
begin

section \<open>Python strings\<close>

text \<open>
  Python \<open>str\<close> values are modelled as \<open>string\<close>. File contents are the text that Python's
  text-mode file objects exchange with the program, with the line feed as the only line
  terminator.
\<close>

abbreviation NL :: char where
  "NL \<equiv> CHR 0x0A"

abbreviation DQ :: char where
  "DQ \<equiv> CHR 0x22"

text \<open>\<open>sub in s\<close> on strings: \<open>sub\<close> occurs as a contiguous run of \<open>s\<close>.\<close>

fun contains :: "string \<Rightarrow> string \<Rightarrow> bool" where
  "contains sub [] = (sub = [])"
| "contains sub (c # cs) = (prefix sub (c # cs) \<or> contains sub cs)"

text \<open>\<open>f.readlines()\<close>: the text cut after every line feed, the terminators kept.\<close>

fun readlines :: "string \<Rightarrow> string list" where
  "readlines [] = []"
| "readlines (c # cs) =
     (if c = NL then [c] # readlines cs
      else (case readlines cs of [] \<Rightarrow> [[c]] | l # ls \<Rightarrow> (c # l) # ls))"

text \<open>\<open>s.lower()\<close> on ASCII text (Azure resource names are ASCII).\<close>

definition lower_char :: "char \<Rightarrow> char" where
  "lower_char c =
     (case map_of (zip ''ABCDEFGHIJKLMNOPQRSTUVWXYZ'' ''abcdefghijklmnopqrstuvwxyz'') c of
        Some d \<Rightarrow> d
      | None \<Rightarrow> c)"

definition lower :: "string \<Rightarrow> string" where
  "lower s = map lower_char s"

text \<open>\<open>s.split('/')[-1]\<close>: the text after the last slash (all of \<open>s\<close> when it has none).\<close>

fun last_segment_acc :: "string \<Rightarrow> string \<Rightarrow> string" where
  "last_segment_acc acc [] = acc"
| "last_segment_acc acc (c # cs) =
     (if c = CHR ''/'' then last_segment_acc [] cs else last_segment_acc (acc @ [c]) cs)"

definition last_segment :: "string \<Rightarrow> string" where
  "last_segment s = last_segment_acc [] s"

text \<open>\<open>str(n)\<close> for an integer, as an f-string prints it.\<close>

fun str_nat :: "nat \<Rightarrow> string" where
  "str_nat n =
     (if n < 10 then [''0123456789'' ! n]
      else str_nat (n div 10) @ [''0123456789'' ! (n mod 10)])"

definition str_int :: "int \<Rightarrow> string" where
  "str_int i = (if i < 0 then CHR ''-'' # str_nat (nat (- i)) else str_nat (nat i))"

section \<open>The world outside the program\<close>

text \<open>
  The program runs alone and in sequence. What it reads from outside is a parameter
  (\<open>env\<close>); what it changes is a state that every operation takes and returns
  (\<open>world\<close>): the files, the lines printed, and the trace of the calls made to services
  and tools. An operation returns \<open>Inr\<close> with its value, or \<open>Inl\<close> with the exception it
  raised, next to the world at that moment.

  Exceptions carry the text that \<open>str(e)\<close> gives. Every failure of the environment that is
  modelled (network, JSON decoding, file access, cloud API) is a subclass of Python's
  \<open>Exception\<close>; the only class the source tells apart is \<open>CalledProcessError\<close>, which is
  part of the outcome of a subprocess.
\<close>

datatype py_exception = PyException (message: string)

datatype proc_outcome = Exited int | Raised py_exception

datatype event =
    HttpGet string
  | Subprocess "string list" "(string \<times> string) list"
  | OsSystem string
  | VmList string
  | NicGet string string
  | PipGet string string

text \<open>
  A file has its text and, when opening it for reading or for writing is refused, the
  exception \<open>open\<close> raises. Writes are atomic: a failure happens when the file is opened.
\<close>

record text_file =
  content :: string
  read_error :: "py_exception option"
  write_error :: "py_exception option"

record world =
  fs :: "string \<rightharpoonup> text_file"
  create_error :: "string \<Rightarrow> py_exception option"
  makedirs_error :: "string \<Rightarrow> py_exception option"
  stdout :: "string list"
  trace :: "event list"

text \<open>The cloud objects, with the attributes the program reads.\<close>

record vm =
  name :: string
  network_profile :: "string list option"

record nic =
  ip_configurations :: "string option list"

record pip =
  ip_address :: "string option"

datatype host =
    WindowsHost (ansible_host: "string option") (ansible_winrm_operation_timeout_sec: int)
      (ansible_winrm_read_timeout_sec: int) (roles: "string list")
  | LinuxHost (ansible_host: "string option")

record inventory =
  windows_hosts :: "(string \<times> host) list"
  windows_vars :: "(string \<times> string) list"
  linux_hosts :: "(string \<times> host) list"
  linux_vars :: "(string \<times> string) list"

text \<open>
  What the program is given: its configuration mapping, and the answers of the services,
  tools and libraries it calls. \<open>ip_lookup\<close> is the outcome of
  \<open>requests.get(...)\<close> followed by \<open>response.json()['ip']\<close>, as the f-string prints it.
  \<open>vm_list\<close> is the pager of \<open>virtual_machines.list\<close>: the machines it yields, and the
  exception that ends the iteration early, if any.
\<close>

record env =
  config :: "string \<rightharpoonup> string"
  ip_lookup :: "py_exception + string"
  run_process :: "string list \<Rightarrow> proc_outcome"
  os_system :: "string \<Rightarrow> int"
  vm_list :: "string \<Rightarrow> vm list \<times> py_exception option"
  nic_get :: "string \<Rightarrow> string \<Rightarrow> py_exception + nic"
  pip_get :: "string \<Rightarrow> string \<Rightarrow> py_exception + pip"
  abspath :: "string \<Rightarrow> string"
  which :: "string \<Rightarrow> string option"
  yaml_dump :: "inventory \<Rightarrow> string"
  yaml_dump_default :: "inventory \<Rightarrow> string"

type_synonym 'a io = "world \<Rightarrow> (py_exception + 'a) \<times> world"

definition return :: "'a \<Rightarrow> 'a io" where
  "return a w = (Inr a, w)"

definition raise :: "py_exception \<Rightarrow> 'a io" where
  "raise e w = (Inl e, w)"

definition bind :: "'a io \<Rightarrow> ('a \<Rightarrow> 'b io) \<Rightarrow> 'b io" where
  "bind m f w = (case m w of (Inl e, w') \<Rightarrow> (Inl e, w') | (Inr a, w') \<Rightarrow> f a w')"

text \<open>\<open>try: body except Exception as e: handler\<close>.\<close>

definition try_except :: "'a io \<Rightarrow> (py_exception \<Rightarrow> 'a io) \<Rightarrow> 'a io" where
  "try_except body handler w =
     (case body w of (Inl e, w') \<Rightarrow> handler e w' | (Inr a, w') \<Rightarrow> (Inr a, w'))"

definition print :: "string \<Rightarrow> unit io" where
  "print s w = (Inr (), w\<lparr>stdout := stdout w @ [s]\<rparr>)"

definition log_event :: "event \<Rightarrow> unit io" where
  "log_event ev w = (Inr (), w\<lparr>trace := trace w @ [ev]\<rparr>)"

definition path_exists :: "string \<Rightarrow> bool io" where
  "path_exists path w = (Inr (fs w path \<noteq> None), w)"

text \<open>\<open>with open(path, 'r') as f: f.read()\<close>\<close>

definition read_file :: "string \<Rightarrow> string io" where
  "read_file path w =
     (case fs w path of
        None \<Rightarrow> (Inl (PyException (''[Errno 2] No such file or directory: '' @ path)), w)
      | Some f \<Rightarrow>
          (case read_error f of
             Some e \<Rightarrow> (Inl e, w)
           | None \<Rightarrow> (Inr (content f), w)))"

text \<open>\<open>with open(path, 'w') as f: f.write(text)\<close>: the file is created when it is missing.\<close>

definition write_file :: "string \<Rightarrow> string \<Rightarrow> unit io" where
  "write_file path text w =
     (case fs w path of
        None \<Rightarrow>
          (case create_error w path of
             Some e \<Rightarrow> (Inl e, w)
           | None \<Rightarrow>
               (Inr (), w\<lparr>fs := (fs w)(path \<mapsto>
                  \<lparr>content = text, read_error = None, write_error = None\<rparr>)\<rparr>))
      | Some f \<Rightarrow>
          (case write_error f of
             Some e \<Rightarrow> (Inl e, w)
           | None \<Rightarrow> (Inr (), w\<lparr>fs := (fs w)(path \<mapsto> f\<lparr>content := text\<rparr>)\<rparr>)))"

text \<open>\<open>with open(path, 'a') as f: f.write(text)\<close>\<close>

definition append_file :: "string \<Rightarrow> string \<Rightarrow> unit io" where
  "append_file path text w =
     (case fs w path of
        None \<Rightarrow>
          (case create_error w path of
             Some e \<Rightarrow> (Inl e, w)
           | None \<Rightarrow>
               (Inr (), w\<lparr>fs := (fs w)(path \<mapsto>
                  \<lparr>content = text, read_error = None, write_error = None\<rparr>)\<rparr>))
      | Some f \<Rightarrow>
          (case write_error f of
             Some e \<Rightarrow> (Inl e, w)
           | None \<Rightarrow>
               (Inr (), w\<lparr>fs := (fs w)(path \<mapsto> f\<lparr>content := content f @ text\<rparr>)\<rparr>)))"

definition makedirs :: "string \<Rightarrow> unit io" where
  "makedirs path w =
     (case makedirs_error w path of Some e \<Rightarrow> (Inl e, w) | None \<Rightarrow> (Inr (), w))"

section \<open>update\_ip\_config\<close>

definition tfvars_path :: string where
  "tfvars_path = ''terraform/terraform.tfvars''"

definition variables_tf :: string where
  "variables_tf = ''terraform/variables.tf''"

definition assign_line :: "string \<Rightarrow> string" where
  "assign_line current_ip = ''allowed_ip = '' @ [DQ] @ current_ip @ [DQ, NL]"

text \<open>
  The loop over the lines read, with the text written so far and the flag
  \<open>ip_config_found\<close>.
\<close>

fun write_lines :: "string \<Rightarrow> string list \<Rightarrow> string \<times> bool \<Rightarrow> string \<times> bool" where
  "write_lines current_ip [] (out, found) = (out, found)"
| "write_lines current_ip (line # lines) (out, found) =
     (if contains ''allowed_ip'' line
      then write_lines current_ip lines (out @ assign_line current_ip, True)
      else write_lines current_ip lines (out @ line, found))"

definition rewrite_tfvars :: "string \<Rightarrow> string \<Rightarrow> string" where
  "rewrite_tfvars current_ip text =
     (case write_lines current_ip (readlines text) ([], False) of
        (out, ip_config_found) \<Rightarrow>
          if \<not> ip_config_found then out @ [NL] @ assign_line current_ip else out)"

definition update_tfvars :: "string \<Rightarrow> unit io" where
  "update_tfvars current_ip =
     bind (path_exists tfvars_path) (\<lambda>ex.
       if ex then
         bind (read_file tfvars_path) (\<lambda>text.
           write_file tfvars_path (rewrite_tfvars current_ip text))
       else return ())"

definition variable_block :: string where
  "variable_block =
     [NL, NL] @ ''variable '' @ [DQ] @ ''allowed_ip'' @ [DQ] @ '' {'' @ [NL]
     @ ''  description = '' @ [DQ]
       @ ''IP address allowed to connect to the Attack Range'' @ [DQ, NL]
     @ ''  type        = string'' @ [NL]
     @ ''  default     = '' @ [DQ] @ ''0.0.0.0/0'' @ [DQ, NL]
     @ ''}'' @ [NL]"

definition update_variables_tf :: "unit io" where
  "update_variables_tf =
     bind (path_exists variables_tf) (\<lambda>ex.
       if ex then
         bind (read_file variables_tf) (\<lambda>text.
           if \<not> contains ''allowed_ip'' text
           then append_file variables_tf variable_block
           else return ())
       else return ())"

text \<open>The body of the \<open>try\<close>.\<close>

definition update_ip_config_try :: "env \<Rightarrow> unit io" where
  "update_ip_config_try env =
     bind (log_event (HttpGet ''https://api.ipify.org?format=json'')) (\<lambda>_.
     bind (\<lambda>w. (ip_lookup env, w)) (\<lambda>ip.
       let current_ip = ip @ ''/32'' in
       bind (update_tfvars current_ip) (\<lambda>_.
       bind (print (''[+] Updated allowed IP to: '' @ current_ip)) (\<lambda>_.
       update_variables_tf))))"

definition update_ip_config :: "env \<Rightarrow> unit io" where
  "update_ip_config env =
     try_except (update_ip_config_try env) (\<lambda>e.
       bind (print (''Warning: Could not update IP configuration: '' @ message e)) (\<lambda>_.
       print ''Continuing with existing configuration...''))"

section \<open>create\_ansible\_inventory\<close>

abbreviation SQ :: char where
  "SQ \<equiv> CHR 0x27"

text \<open>\<open>self.config.get(key, default)\<close>\<close>

definition config_get :: "env \<Rightarrow> string \<Rightarrow> string \<Rightarrow> string" where
  "config_get env key dflt = (case config env key of None \<Rightarrow> dflt | Some v \<Rightarrow> v)"

text \<open>\<open>not v\<close> for a value that is \<open>None\<close> or a string.\<close>

definition falsy :: "string option \<Rightarrow> bool" where
  "falsy v = (case v of None \<Rightarrow> True | Some s \<Rightarrow> s = [])"

text \<open>How an f-string prints a value that is \<open>None\<close> or a string.\<close>

definition str_opt :: "string option \<Rightarrow> string" where
  "str_opt v = (case v of None \<Rightarrow> ''None'' | Some s \<Rightarrow> s)"

definition initial_inventory :: "string \<Rightarrow> string \<Rightarrow> inventory" where
  "initial_inventory admin_username admin_password =
     \<lparr>windows_hosts = [],
      windows_vars =
        [(''ansible_user'', admin_username),
         (''ansible_password'', admin_password),
         (''ansible_connection'', ''winrm''),
         (''ansible_winrm_server_cert_validation'', ''ignore''),
         (''ansible_port'', ''5985''),
         (''ansible_winrm_scheme'', ''http''),
         (''ansible_winrm_transport'', ''ntlm'')],
      linux_hosts = [],
      linux_vars =
        [(''ansible_user'', ''kali''),
         (''ansible_ssh_private_key_file'', ''~/.ssh/id_rsa''),
         (''ansible_connection'', ''ssh'')]\<rparr>"

definition windows_keywords :: "string list" where
  "windows_keywords = [''dc'', ''workstation'', ''win11'', ''server2025'']"

text \<open>
  The \<open>if\<close>/\<open>elif\<close> on the lowered name, with the assignment into the \<open>hosts\<close> dictionary
  of the group (a Python dictionary keeps insertion order and overwrites in place).
\<close>

definition classify :: "string \<Rightarrow> string option \<Rightarrow> inventory \<Rightarrow> inventory" where
  "classify vm_name public_ip inventory =
     (let vm_name_lower = lower vm_name in
      if list_ex (\<lambda>keyword. contains keyword vm_name_lower) windows_keywords
      then inventory\<lparr>windows_hosts :=
             AList.update vm_name (WindowsHost public_ip 60 70 [''defender_for_endpoint''])
               (windows_hosts inventory)\<rparr>
      else if contains ''kali'' vm_name_lower
      then inventory\<lparr>linux_hosts :=
             AList.update vm_name (LinuxHost public_ip) (linux_hosts inventory)\<rparr>
      else inventory)"

text \<open>
  The body of the inner \<open>try\<close>, for one machine. \<open>network_profile vm = None\<close> is a machine
  whose \<open>network_profile\<close> is \<open>None\<close>; a \<open>network_interfaces\<close> of \<open>None\<close> is falsy like
  the empty list. Each \<open>continue\<close> returns the inventory as it was.
\<close>

definition process_vm_try :: "env \<Rightarrow> string \<Rightarrow> vm \<Rightarrow> inventory \<Rightarrow> inventory io" where
  "process_vm_try env rg_name vm inventory =
     (let vm_name = name vm in
      bind (print (''Processing VM: '' @ vm_name)) (\<lambda>_.
        case network_profile vm of
          None \<Rightarrow>
            raise (PyException ([SQ] @ ''NoneType'' @ [SQ] @ '' object has no attribute ''
                     @ [SQ] @ ''network_interfaces'' @ [SQ]))
        | Some network_interfaces \<Rightarrow>
            (case network_interfaces of
               [] \<Rightarrow> return inventory
             | primary_nic_id # _ \<Rightarrow>
                 (let nic_name = last_segment primary_nic_id in
                  bind (log_event (NicGet rg_name nic_name)) (\<lambda>_.
                  bind (\<lambda>w. (nic_get env rg_name nic_name, w)) (\<lambda>nic.
                    case ip_configurations nic of
                      [] \<Rightarrow> raise (PyException ''list index out of range'')
                    | public_ip_address # _ \<Rightarrow>
                        (case public_ip_address of
                           None \<Rightarrow> return inventory
                         | Some pip_id \<Rightarrow>
                             (let pip_name = last_segment pip_id in
                              bind (log_event (PipGet rg_name pip_name)) (\<lambda>_.
                              bind (\<lambda>w. (pip_get env rg_name pip_name, w)) (\<lambda>pip.
                                let public_ip = ip_address pip in
                                bind (print (''Found IP '' @ str_opt public_ip
                                               @ '' for VM '' @ vm_name)) (\<lambda>_.
                                return (classify vm_name public_ip inventory))))))))))))"

definition process_vm :: "env \<Rightarrow> string \<Rightarrow> vm \<Rightarrow> inventory \<Rightarrow> inventory io" where
  "process_vm env rg_name vm inventory =
     try_except (process_vm_try env rg_name vm inventory) (\<lambda>e.
       bind (print (''Warning: Error processing VM '' @ name vm @ '': '' @ message e)) (\<lambda>_.
       return inventory))"

fun process_vms :: "env \<Rightarrow> string \<Rightarrow> vm list \<Rightarrow> inventory \<Rightarrow> inventory io" where
  "process_vms env rg_name [] inventory = return inventory"
| "process_vms env rg_name (vm # vms) inventory =
     bind (process_vm env rg_name vm inventory) (process_vms env rg_name vms)"

definition inventory_path :: string where
  "inventory_path = ''playbooks/inventory.yml''"

text \<open>The body of the outer \<open>try\<close>.\<close>

definition create_ansible_inventory_try :: "env \<Rightarrow> string \<Rightarrow> inventory \<Rightarrow> bool io" where
  "create_ansible_inventory_try env rg_name inventory0 =
     bind (log_event (VmList rg_name)) (\<lambda>_.
       case vm_list env rg_name of
         (vms, failure) \<Rightarrow>
           bind (process_vms env rg_name vms inventory0) (\<lambda>inventory.
             case failure of
               Some e \<Rightarrow> raise e
             | None \<Rightarrow>
                 bind (makedirs ''playbooks'') (\<lambda>_.
                 bind (write_file inventory_path (yaml_dump env inventory)) (\<lambda>_.
                 bind (print ([NL] @ ''Generated Inventory:'')) (\<lambda>_.
                 bind (print (yaml_dump_default env inventory)) (\<lambda>_.
                 return True))))))"

definition create_ansible_inventory :: "env \<Rightarrow> bool io" where
  "create_ansible_inventory env =
     bind (print ''[+] Creating Ansible inventory file...'') (\<lambda>_.
       let admin_username = config_get env ''admin_username'' ''azureuser'';
           admin_password = config env ''admin_password'';
           rg_name = config_get env ''resource_group'' ''attack-range-rg''
       in if falsy admin_password
          then bind (print ''Error: admin_password not found in configuration'') (\<lambda>_.
               return False)
          else try_except
                 (create_ansible_inventory_try env rg_name
                    (initial_inventory admin_username (str_opt admin_password)))
                 (\<lambda>e. bind (print (''Error creating Ansible inventory: '' @ message e)) (\<lambda>_.
                      return False)))"

section \<open>run\_defender\_onboarding\<close>

definition playbook_cmd :: "string list" where
  "playbook_cmd =
     [''ansible-playbook'', ''-i'', ''playbooks/inventory.yml'',
      ''playbooks/windows_defender_endpoint.yml'']"

definition run_defender_onboarding :: "env \<Rightarrow> unit io" where
  "run_defender_onboarding env =
     (let script_path = config env ''defender_onboarding_script'' in
      if falsy script_path
      then print (''Warning: '' @ [SQ] @ ''defender_onboarding_script'' @ [SQ]
                  @ '' is not set in attack-range.yml; skipping Defender onboarding.'')
      else
        (let abs_script_path = abspath env (str_opt script_path) in
         bind (path_exists abs_script_path) (\<lambda>ex.
           if \<not> ex
           then print (''Warning: Defender onboarding script not found at ''
                       @ abs_script_path @ ''; skipping Defender onboarding.'')
           else if which env ''ansible-playbook'' = None
           then print (''Warning: ansible-playbook is not available on PATH; ''
                       @ ''skipping Defender onboarding.'')
           else
             bind (log_event (Subprocess playbook_cmd
                     [(''DEFENDER_ONBOARDING_SCRIPT'', abs_script_path)])) (\<lambda>_.
               case run_process env playbook_cmd of
                 Raised e \<Rightarrow> raise e
               | Exited returncode \<Rightarrow>
                   if returncode = 0
                   then print (''[+] Microsoft Defender for Endpoint onboarding ''
                               @ ''playbook completed.'')
                   else print (''Warning: Ansible playbook exited with code ''
                               @ str_int returncode
                               @ ''; Defender onboarding may be incomplete.'')))))"

section \<open>build and update\<close>

definition init_cmd :: "string list" where
  "init_cmd = [''terraform'', ''-chdir=terraform'', ''init'']"

definition apply_cmd :: "string list" where
  "apply_cmd = [''terraform'', ''-chdir=terraform'', ''apply'', ''-auto-approve'']"

text \<open>
  \<open>subprocess.run(cmd, check=True)\<close>: a non-zero exit is raised as
  \<open>CalledProcessError\<close>, which the callers catch apart from every other exception.
\<close>

datatype run_error = CalledProcessError (returncode: int) | OtherError py_exception

definition subprocess_run_check ::
  "env \<Rightarrow> string list \<Rightarrow> world \<Rightarrow> (run_error + unit) \<times> world" where
  "subprocess_run_check env cmd w =
     (let w' = w\<lparr>trace := trace w @ [Subprocess cmd []]\<rparr> in
      case run_process env cmd of
        Raised e \<Rightarrow> (Inl (OtherError e), w')
      | Exited rc \<Rightarrow> if rc \<noteq> 0 then (Inl (CalledProcessError rc), w') else (Inr (), w'))"

text \<open>The body of the \<open>try\<close> of \<open>build\<close>: init, then apply.\<close>

definition build_try :: "env \<Rightarrow> world \<Rightarrow> (run_error + unit) \<times> world" where
  "build_try env w =
     (case subprocess_run_check env init_cmd w of
        (Inl err, w') \<Rightarrow> (Inl err, w')
      | (Inr _, w') \<Rightarrow> subprocess_run_check env apply_cmd w')"

text \<open>What follows the \<open>try\<close> of \<open>build\<close> when neither step raised.\<close>

definition build_finish :: "env \<Rightarrow> bool io" where
  "build_finish env =
     bind (print ''[+] Infrastructure built successfully'') (\<lambda>_.
     bind (create_ansible_inventory env) (\<lambda>ok.
       if \<not> ok
       then bind (print (''Warning: Could not generate Ansible inventory; ''
                         @ ''skipping Defender onboarding playbook.'')) (\<lambda>_.
            return True)
       else bind (run_defender_onboarding env) (\<lambda>_. return True)))"

definition build :: "env \<Rightarrow> bool io" where
  "build env =
     bind (print ''[+] Building Azure Attack Range infrastructure...'') (\<lambda>_.
     bind (update_ip_config env) (\<lambda>_.
       (\<lambda>w. case build_try env w of
               (Inl (CalledProcessError rc), w') \<Rightarrow>
                 bind (print (''Error building infrastructure: Terraform exited with code ''
                              @ str_int rc)) (\<lambda>_. return False) w'
             | (Inl (OtherError e), w') \<Rightarrow>
                 bind (print (''Error building infrastructure: '' @ message e)) (\<lambda>_.
                 return False) w'
             | (Inr _, w') \<Rightarrow> build_finish env w')))"

text \<open>
  \<open>os.system\<close> returns the exit status and raises nothing, so the \<open>except\<close> of
  \<open>update\<close> has no path into it.
\<close>

definition update_cmd :: string where
  "update_cmd = ''terraform -chdir=terraform apply -auto-approve''"

definition update :: "env \<Rightarrow> bool io" where
  "update env =
     bind (print ''[+] Updating Azure Attack Range infrastructure...'') (\<lambda>_.
     bind (update_ip_config env) (\<lambda>_.
     bind (log_event (OsSystem update_cmd)) (\<lambda>_.
       let result = os_system env update_cmd in
       if result \<noteq> 0
       then bind (print ''Error: Terraform apply failed'') (\<lambda>_. return False)
       else bind (print ''[+] Infrastructure updated successfully'') (\<lambda>_. return True))))"

section \<open>Specification-level notions\<close>

text \<open>
  The public address that the chain machine, primary interface, primary public address
  yields when every link is present and both lookups answer; \<open>None\<close> otherwise. It
  follows the lookups of \<open>process_vm_try\<close> without their effects.
\<close>

definition resolved_public_ip :: "env \<Rightarrow> string \<Rightarrow> vm \<Rightarrow> string option option" where
  "resolved_public_ip env rg_name vm =
     (case network_profile vm of
        Some (primary_nic_id # _) \<Rightarrow>
          (case nic_get env rg_name (last_segment primary_nic_id) of
             Inr nic \<Rightarrow>
               (case ip_configurations nic of
                  Some pip_id # _ \<Rightarrow>
                    (case pip_get env rg_name (last_segment pip_id) of
                       Inr pip \<Rightarrow> Some (ip_address pip)
                     | Inl _ \<Rightarrow> None)
                | _ \<Rightarrow> None)
           | Inl _ \<Rightarrow> None)
      | _ \<Rightarrow> None)"

text \<open>The two tests of the \<open>if\<close>/\<open>elif\<close> of \<open>classify\<close>, on a machine name.\<close>

definition is_windows_name :: "string \<Rightarrow> bool" where
  "is_windows_name vm_name =
     list_ex (\<lambda>keyword. contains keyword (lower vm_name)) windows_keywords"

definition is_linux_name :: "string \<Rightarrow> bool" where
  "is_linux_name vm_name = (\<not> is_windows_name vm_name \<and> contains ''kali'' (lower vm_name))"

text \<open>
  What one pass of the loop of \<open>create_ansible_inventory\<close> does to the inventory: a machine
  whose public address resolves is classified, any other machine leaves it as it was.
\<close>

definition add_vm :: "env \<Rightarrow> string \<Rightarrow> inventory \<Rightarrow> vm \<Rightarrow> inventory" where
  "add_vm env rg_name inventory vm =
     (case resolved_public_ip env rg_name vm of
        None \<Rightarrow> inventory
      | Some public_ip \<Rightarrow> classify (name vm) public_ip inventory)"

text \<open>Opening \<open>path\<close> for writing succeeds, whether the file exists or has to be created.\<close>

definition can_write :: "world \<Rightarrow> string \<Rightarrow> bool" where
  "can_write w path =
     (case fs w path of
        None \<Rightarrow> create_error w path = None
      | Some f \<Rightarrow> write_error f = None)"

text \<open>Two worlds with the same files and the same permissions.\<close>

definition same_files :: "world \<Rightarrow> world \<Rightarrow> bool" where
  "same_files w w' =
     (fs w' = fs w \<and> create_error w' = create_error w \<and> makedirs_error w' = makedirs_error w)"

text \<open>The world in which \<open>build\<close> enters its \<open>try\<close>: after its first message and the sync.\<close>

definition build_enters_try :: "env \<Rightarrow> world \<Rightarrow> world" where
  "build_enters_try env w =
     snd (update_ip_config env
            (snd (print ''[+] Building Azure Attack Range infrastructure...'' w)))"

text \<open>
  The world after a lookup that answered and the success message of \<open>update_ip_config\<close>,
  when the values file was not touched.
\<close>

definition after_lookup :: "string \<Rightarrow> world \<Rightarrow> world" where
  "after_lookup current_ip w =
     w\<lparr>trace := trace w @ [HttpGet ''https://api.ipify.org?format=json''],
       stdout := stdout w @ [''[+] Updated allowed IP to: '' @ current_ip]\<rparr>"


section \<open>Sample inputs\<close>

text \<open>
  A world with no files where everything may be created, and an environment with an
  administrator password, a lookup service that answers, tools that exit with 0, and four
  machines whose public address resolves. An interface named nic-gone cannot be looked up,
  and one named nic-private has no public address.
\<close>

definition sample_world :: world where
  "sample_world =
     \<lparr>fs = Map.empty, create_error = (\<lambda>_. None), makedirs_error = (\<lambda>_. None),
      stdout = [], trace = []\<rparr>"

definition sample_vms :: "vm list" where
  "sample_vms =
     [\<lparr>name = ''DC01'', network_profile = Some [''/networkInterfaces/nic-dc01'']\<rparr>,
      \<lparr>name = ''workstation-1'', network_profile = Some [''/networkInterfaces/nic-ws1'']\<rparr>,
      \<lparr>name = ''kali-attacker'', network_profile = Some [''/networkInterfaces/nic-kali'']\<rparr>,
      \<lparr>name = ''random-box'', network_profile = Some [''/networkInterfaces/nic-box'']\<rparr>]"

definition sample_env :: env where
  "sample_env =
     \<lparr>config = [''admin_password'' \<mapsto> ''S3cret!''],
      ip_lookup = Inr ''203.0.113.7'',
      run_process = (\<lambda>_. Exited 0),
      os_system = (\<lambda>_. 0),
      vm_list = (\<lambda>_. (sample_vms, None)),
      nic_get = (\<lambda>_ nic_name.
        if nic_name = ''nic-gone'' then Inl (PyException ''ResourceNotFound'')
        else Inr \<lparr>ip_configurations =
               [if nic_name = ''nic-private'' then None
                else Some (''/publicIPAddresses/pip-of-'' @ nic_name)]\<rparr>),
      pip_get = (\<lambda>_ pip_name. Inr \<lparr>ip_address = Some ''20.0.0.4''\<rparr>),
      abspath = (\<lambda>p. ''/home/range/'' @ p),
      which = (\<lambda>_. None),
      yaml_dump = (\<lambda>inventory. concat (map fst (windows_hosts inventory @ linux_hosts inventory))),
      yaml_dump_default = (\<lambda>_. [])\<rparr>"

text \<open>A machine whose interface lookup raises, between two machines that resolve.\<close>

definition sample_broken_vm :: vm where
  "sample_broken_vm =
     \<lparr>name = ''workstation-9'', network_profile = Some [''/networkInterfaces/nic-gone'']\<rparr>"

definition sample_env_broken :: env where
  "sample_env_broken =
     sample_env\<lparr>vm_list := (\<lambda>_. ([sample_vms ! 0, sample_broken_vm, sample_vms ! 2], None))\<rparr>"

text \<open>Environments where a step of \<open>build\<close> fails.\<close>

definition sample_env_init_raises :: env where
  "sample_env_init_raises =
     sample_env\<lparr>run_process := (\<lambda>cmd.
       if cmd = init_cmd then Raised (PyException ''[Errno 2] No such file or directory: terraform'')
       else Exited 0)\<rparr>"

definition sample_env_apply_fails :: env where
  "sample_env_apply_fails =
     sample_env\<lparr>run_process := (\<lambda>cmd. if cmd = apply_cmd then Exited 1 else Exited 0)\<rparr>"

definition sample_env_no_password :: env where
  "sample_env_no_password = sample_env\<lparr>config := Map.empty\<rparr>"

text \<open>Worlds with one file, and the texts used in them.\<close>

definition plain_file :: "string \<Rightarrow> text_file" where
  "plain_file s = \<lparr>content = s, read_error = None, write_error = None\<rparr>"

definition denied_file :: "string \<Rightarrow> text_file" where
  "denied_file s =
     \<lparr>content = s, read_error = None,
      write_error = Some (PyException ''[Errno 13] Permission denied'')\<rparr>"

definition world_with :: "string \<Rightarrow> text_file \<Rightarrow> world" where
  "world_with path f = sample_world\<lparr>fs := [path \<mapsto> f]\<rparr>"

definition location_line :: string where
  "location_line = ''location = '' @ [DQ] @ ''eastus'' @ [DQ, NL]"

definition old_assign_line :: string where
  "old_assign_line = ''allowed_ip = '' @ [DQ] @ ''198.51.100.1/32'' @ [DQ, NL]"

definition comment_line :: string where
  "comment_line = ''# allowed_ip is written by the range tool'' @ [NL]"

definition declared_text :: string where
  "declared_text = ''variable '' @ [DQ] @ ''allowed_ip'' @ [DQ] @ '' {}'' @ [NL]"

definition undeclared_text :: string where
  "undeclared_text = ''variable '' @ [DQ] @ ''location'' @ [DQ] @ '' {}'' @ [NL]"

section \<open>Strings\<close>













section \<open>Evaluation and unfolding\<close>

lemmas io_defs = return_def raise_def bind_def try_except_def print_def log_event_def

lemmas sample_defs = sample_env_def sample_world_def sample_vms_def

lemmas string_defs = lower_def lower_char_def last_segment_def

lemmas inventory_defs =
  create_ansible_inventory_def create_ansible_inventory_try_def process_vm_def
  process_vm_try_def classify_def windows_keywords_def initial_inventory_def
  config_get_def falsy_def str_opt_def inventory_path_def makedirs_def write_file_def

lemmas update_ip_defs =
  update_ip_config_def update_ip_config_try_def update_tfvars_def update_variables_tf_def
  path_exists_def read_file_def write_file_def append_file_def tfvars_path_def variables_tf_def

lemmas build_defs =
  build_enters_try_def build_def build_try_def build_finish_def subprocess_run_check_def
  init_cmd_def apply_cmd_def str_int_def

lemmas file_defs = world_with_def plain_file_def location_line_def old_assign_line_def
  comment_line_def

lemmas eval_defs = file_defs sample_defs update_ip_defs io_defs rewrite_tfvars_def
  assign_line_def Let_def

section \<open>The loop over the machines\<close>

lemma process_vm_result:
  "fst (process_vm env rg vm invt w) = Inr (add_vm env rg invt vm)
   \<and> same_files w (snd (process_vm env rg vm invt w))"
  unfolding process_vm_def process_vm_try_def resolved_public_ip_def add_vm_def io_defs Let_def
    same_files_def
  by (auto split: option.splits list.splits sum.splits prod.splits)

lemma same_files_trans: "same_files a b \<Longrightarrow> same_files b c \<Longrightarrow> same_files a c"
  by (simp add: same_files_def)

lemma process_vms_result:
  "fst (process_vms env rg vms invt w) = Inr (foldl (add_vm env rg) invt vms)
   \<and> same_files w (snd (process_vms env rg vms invt w))"
proof (induction vms arbitrary: invt w)
  case Nil
  show ?case by (simp add: return_def same_files_def)
next
  case (Cons vm vms)
  obtain w1 where 1: "process_vm env rg vm invt w = (Inr (add_vm env rg invt vm), w1)"
    and s1: "same_files w w1"
    using process_vm_result [of env rg vm invt w] by (cases "process_vm env rg vm invt w") auto
  from Cons.IH [of "add_vm env rg invt vm" w1] 1 s1 show ?case
    by (auto simp: bind_def intro: same_files_trans)
qed

lemma process_vms_fst:
  "fst (process_vms env rg vms invt w) = Inr (foldl (add_vm env rg) invt vms)"
  using process_vms_result by blast

lemma resolved_None_iff:
  "resolved_public_ip env rg vm = None \<longleftrightarrow>
     network_profile vm = Some []
     \<or> (\<exists>nic_id rest nic cfgs. network_profile vm = Some (nic_id # rest)
           \<and> nic_get env rg (last_segment nic_id) = Inr nic
           \<and> ip_configurations nic = None # cfgs)
     \<or> (\<exists>e. fst (process_vm_try env rg vm invt w) = Inl e)"
  unfolding resolved_public_ip_def process_vm_try_def io_defs Let_def
  by (auto split: option.splits list.splits sum.splits prod.splits)

lemma is_windows_name_iff:
  "is_windows_name n \<longleftrightarrow> (\<exists>k \<in> set windows_keywords. contains k (lower n))"
  by (simp add: is_windows_name_def list_ex_iff)

lemma classify_cases:
  "classify n ip invt =
     (if is_windows_name n
      then invt\<lparr>windows_hosts :=
             AList.update n (WindowsHost ip 60 70 [''defender_for_endpoint'']) (windows_hosts invt)\<rparr>
      else if is_linux_name n
      then invt\<lparr>linux_hosts := AList.update n (LinuxHost ip) (linux_hosts invt)\<rparr>
      else invt)"
  by (simp add: classify_def is_windows_name_def is_linux_name_def Let_def)

lemma windows_keys_add_vm:
  "fst ` set (windows_hosts (add_vm env rg invt vm)) =
     fst ` set (windows_hosts invt)
     \<union> (if resolved_public_ip env rg vm \<noteq> None \<and> is_windows_name (name vm)
        then {name vm} else {})"
  by (auto simp: add_vm_def classify_cases AList.dom_update split: option.splits)

lemma linux_keys_add_vm:
  "fst ` set (linux_hosts (add_vm env rg invt vm)) =
     fst ` set (linux_hosts invt)
     \<union> (if resolved_public_ip env rg vm \<noteq> None \<and> is_linux_name (name vm)
        then {name vm} else {})"
  by (auto simp: add_vm_def classify_cases AList.dom_update is_linux_name_def
        split: option.splits)

lemma windows_keys_foldl:
  "fst ` set (windows_hosts (foldl (add_vm env rg) invt vms)) =
     fst ` set (windows_hosts invt)
     \<union> {n \<in> name ` {vm \<in> set vms. resolved_public_ip env rg vm \<noteq> None}. is_windows_name n}"
proof (induction vms rule: rev_induct)
  case Nil
  show ?case by simp
next
  case (snoc vm vms)
  show ?case
    unfolding foldl_append foldl_Cons foldl_Nil windows_keys_add_vm snoc.IH
    by auto
qed

lemma linux_keys_foldl:
  "fst ` set (linux_hosts (foldl (add_vm env rg) invt vms)) =
     fst ` set (linux_hosts invt)
     \<union> {n \<in> name ` {vm \<in> set vms. resolved_public_ip env rg vm \<noteq> None}. is_linux_name n}"
proof (induction vms rule: rev_induct)
  case Nil
  show ?case by simp
next
  case (snoc vm vms)
  show ?case
    unfolding foldl_append foldl_Cons foldl_Nil linux_keys_add_vm snoc.IH
    by auto
qed

lemma foldl_add_vm_skip:
  assumes "resolved_public_ip env rg vm = None"
  shows "foldl (add_vm env rg) invt (before @ vm # after) = foldl (add_vm env rg) invt (before @ after)"
  using assms by (simp add: add_vm_def)

lemma is_windows_name_samples:
  "is_windows_name ''DC01''" "is_windows_name ''workstation-1''"
  "\<not> is_windows_name ''kali-attacker''" "\<not> is_windows_name ''random-box''"
  by (simp_all add: is_windows_name_def windows_keywords_def string_defs)

lemma is_linux_name_samples:
  "\<not> is_linux_name ''DC01''" "\<not> is_linux_name ''workstation-1''"
  "is_linux_name ''kali-attacker''" "\<not> is_linux_name ''random-box''"
  by (simp_all add: is_linux_name_def is_windows_name_def windows_keywords_def string_defs)

section \<open>Writing the inventory\<close>

lemma create_ansible_inventory_try_result:
  assumes "vm_list env rg = (vms, failure)"
  shows "fst (create_ansible_inventory_try env rg invt w) =
           (case failure of Some e \<Rightarrow> Inl e | None \<Rightarrow>
              (case makedirs_error w ''playbooks'' of Some e \<Rightarrow> Inl e | None \<Rightarrow>
                 (case fs w inventory_path of
                    None \<Rightarrow> (case create_error w inventory_path of Some e \<Rightarrow> Inl e | None \<Rightarrow> Inr True)
                  | Some f \<Rightarrow> (case write_error f of Some e \<Rightarrow> Inl e | None \<Rightarrow> Inr True))))"
proof -
  let ?w1 = "w\<lparr>trace := trace w @ [VmList rg]\<rparr>"
  obtain w2 where 1: "process_vms env rg vms invt ?w1 = (Inr (foldl (add_vm env rg) invt vms), w2)"
    and s: "same_files ?w1 w2"
    using process_vms_result [of env rg vms invt ?w1]
    by (cases "process_vms env rg vms invt ?w1") auto
  from s have "fs w2 = fs w" "create_error w2 = create_error w" "makedirs_error w2 = makedirs_error w"
    by (simp_all add: same_files_def)
  then show ?thesis
    using 1 assms
    by (simp add: create_ansible_inventory_try_def io_defs makedirs_def write_file_def
          split: option.splits)
qed

lemma create_ansible_inventory_try_files:
  assumes "vm_list env rg = (vms, failure)"
  shows "fs (snd (create_ansible_inventory_try env rg invt w)) =
           (if fst (create_ansible_inventory_try env rg invt w) = Inr True
            then (fs w)(inventory_path \<mapsto>
                   (case fs w inventory_path of
                      None \<Rightarrow> \<lparr>content = yaml_dump env (foldl (add_vm env rg) invt vms),
                               read_error = None, write_error = None\<rparr>
                    | Some f \<Rightarrow> f\<lparr>content := yaml_dump env (foldl (add_vm env rg) invt vms)\<rparr>))
            else fs w)"
proof -
  let ?w1 = "w\<lparr>trace := trace w @ [VmList rg]\<rparr>"
  obtain w2 where 1: "process_vms env rg vms invt ?w1 = (Inr (foldl (add_vm env rg) invt vms), w2)"
    and s: "same_files ?w1 w2"
    using process_vms_result [of env rg vms invt ?w1]
    by (cases "process_vms env rg vms invt ?w1") auto
  from s have "fs w2 = fs w" "create_error w2 = create_error w" "makedirs_error w2 = makedirs_error w"
    by (simp_all add: same_files_def)
  then show ?thesis
    using 1 assms
    by (simp add: create_ansible_inventory_try_def io_defs makedirs_def write_file_def
          split: option.splits)
qed

lemma create_ansible_inventory_unfold:
  assumes "\<not> falsy (config env ''admin_password'')"
  shows "fst (create_ansible_inventory env w) =
           (case fst (create_ansible_inventory_try env
                        (config_get env ''resource_group'' ''attack-range-rg'')
                        (initial_inventory (config_get env ''admin_username'' ''azureuser'')
                           (str_opt (config env ''admin_password'')))
                        (w\<lparr>stdout := stdout w @ [''[+] Creating Ansible inventory file...'']\<rparr>)) of
              Inl e \<Rightarrow> Inr False
            | Inr ok \<Rightarrow> Inr ok)"
    and "fs (snd (create_ansible_inventory env w)) =
           fs (snd (create_ansible_inventory_try env
                        (config_get env ''resource_group'' ''attack-range-rg'')
                        (initial_inventory (config_get env ''admin_username'' ''azureuser'')
                           (str_opt (config env ''admin_password'')))
                        (w\<lparr>stdout := stdout w @ [''[+] Creating Ansible inventory file...'']\<rparr>)))"
  using assms
  by (auto simp: create_ansible_inventory_def io_defs Let_def split: prod.splits sum.splits)

lemma create_ansible_inventory_success:
  assumes pw: "\<not> falsy (config env ''admin_password'')"
    and vms: "vm_list env (config_get env ''resource_group'' ''attack-range-rg'') = (vms, None)"
    and mk: "makedirs_error w ''playbooks'' = None"
    and wr: "can_write w inventory_path"
  shows "fst (create_ansible_inventory env w) = Inr True"
    and "map_option content (fs (snd (create_ansible_inventory env w)) inventory_path) =
           Some (yaml_dump env
             (foldl (add_vm env (config_get env ''resource_group'' ''attack-range-rg''))
                (initial_inventory (config_get env ''admin_username'' ''azureuser'')
                   (str_opt (config env ''admin_password''))) vms))"
proof -
  let ?w1 = "w\<lparr>stdout := stdout w @ [''[+] Creating Ansible inventory file...'']\<rparr>"
  let ?rg = "config_get env ''resource_group'' ''attack-range-rg''"
  let ?i0 = "initial_inventory (config_get env ''admin_username'' ''azureuser'')
                   (str_opt (config env ''admin_password''))"
  have t: "fst (create_ansible_inventory_try env ?rg ?i0 ?w1) = Inr True"
    using create_ansible_inventory_try_result [OF vms, of ?i0 ?w1] mk wr
    by (cases "fs w inventory_path") (simp_all add: can_write_def)
  show "fst (create_ansible_inventory env w) = Inr True"
    using create_ansible_inventory_unfold(1) [OF pw, of w] t by simp
  show "map_option content (fs (snd (create_ansible_inventory env w)) inventory_path) =
           Some (yaml_dump env (foldl (add_vm env ?rg) ?i0 vms))"
    using create_ansible_inventory_unfold(2) [OF pw, of w]
      create_ansible_inventory_try_files [OF vms, of ?i0 ?w1] t
    by (cases "fs w inventory_path") simp_all
qed

lemma sample_resolved:
  "\<forall>vm \<in> set sample_vms. resolved_public_ip sample_env ''attack-range-rg'' vm \<noteq> None"
  by (simp add: sample_defs resolved_public_ip_def string_defs)

section \<open>The sync of the allow-list\<close>

lemma update_ip_config_returns:
  "fst (update_ip_config env w) = Inr ()"
  by (auto simp: update_ip_config_def io_defs split: prod.splits sum.splits)






lemma update_variables_tf_other_files:
  "path \<noteq> variables_tf \<Longrightarrow> fs (snd (update_variables_tf w)) path = fs w path"
  by (auto simp: update_variables_tf_def path_exists_def read_file_def append_file_def io_defs
        split: option.splits)

lemma update_variables_tf_stdout:
  "stdout (snd (update_variables_tf w)) = stdout w"
  by (auto simp: update_variables_tf_def path_exists_def read_file_def append_file_def io_defs
        split: option.splits)

lemma tfvars_not_variables_tf: "tfvars_path \<noteq> variables_tf"
  by (simp add: tfvars_path_def variables_tf_def)

lemma update_tfvars_other_files:
  "path \<noteq> tfvars_path \<Longrightarrow> fs (snd (update_tfvars cur w)) path = fs w path"
  by (auto simp: update_tfvars_def path_exists_def read_file_def write_file_def io_defs
        split: option.splits)

lemma update_tfvars_ok:
  assumes "case fs w tfvars_path of None \<Rightarrow> True
           | Some f \<Rightarrow> read_error f = None \<and> write_error f = None"
  shows "fst (update_tfvars cur w) = Inr ()"
  using assms
  by (auto simp: update_tfvars_def path_exists_def read_file_def write_file_def io_defs
        split: option.splits)

lemma update_variables_tf_present:
  assumes "fs w variables_tf = Some g" "contains ''allowed_ip'' (content g)"
  shows "fs (snd (update_variables_tf w)) = fs w"
  using assms
  by (auto simp: update_variables_tf_def path_exists_def read_file_def append_file_def io_defs
        split: option.splits)

lemma update_variables_tf_absent:
  assumes "fs w variables_tf = Some g" "read_error g = None" "write_error g = None"
    "\<not> contains ''allowed_ip'' (content g)"
  shows "update_variables_tf w =
           (Inr (), w\<lparr>fs := (fs w)(variables_tf \<mapsto> g\<lparr>content := content g @ variable_block\<rparr>)\<rparr>)"
  using assms
  by (auto simp: update_variables_tf_def path_exists_def read_file_def append_file_def io_defs
        split: option.splits)

lemma update_ip_config_try_cases:
  "(\<exists>e. update_ip_config_try env w =
          (Inl e, w\<lparr>trace := trace w @ [HttpGet ''https://api.ipify.org?format=json'']\<rparr>)
        \<and> ip_lookup env = Inl e)
   \<or> (\<exists>ip e. ip_lookup env = Inr ip
        \<and> update_ip_config_try env w =
            (Inl e, snd (update_tfvars (ip @ ''/32'')
               (w\<lparr>trace := trace w @ [HttpGet ''https://api.ipify.org?format=json'']\<rparr>)))
        \<and> fst (update_tfvars (ip @ ''/32'')
               (w\<lparr>trace := trace w @ [HttpGet ''https://api.ipify.org?format=json'']\<rparr>)) = Inl e)
   \<or> (\<exists>ip w2. ip_lookup env = Inr ip
        \<and> update_tfvars (ip @ ''/32'')
               (w\<lparr>trace := trace w @ [HttpGet ''https://api.ipify.org?format=json'']\<rparr>) = (Inr (), w2)
        \<and> update_ip_config_try env w =
            update_variables_tf
              (w2\<lparr>stdout := stdout w2 @ [''[+] Updated allowed IP to: '' @ ip @ ''/32'']\<rparr>))"
  by (cases "ip_lookup env")
     (auto simp: update_ip_config_try_def io_defs Let_def split: prod.splits sum.splits)

lemma update_ip_config_files:
  "fs (snd (update_ip_config env w)) = fs (snd (update_ip_config_try env w))"
  by (auto simp: update_ip_config_def io_defs split: prod.splits sum.splits)


section \<open>The steps of build and update\<close>

lemma create_ansible_inventory_returns:
  "\<exists>ok. fst (create_ansible_inventory env w) = Inr ok"
  by (auto simp: create_ansible_inventory_def io_defs Let_def split: prod.splits sum.splits)

lemma build_unfold:
  "build env w =
     (case build_try env (build_enters_try env w) of
        (Inl (CalledProcessError rc), w') \<Rightarrow>
          (Inr False, w'\<lparr>stdout := stdout w' @
             [''Error building infrastructure: Terraform exited with code '' @ str_int rc]\<rparr>)
      | (Inl (OtherError e), w') \<Rightarrow>
          (Inr False, w'\<lparr>stdout := stdout w' @
             [''Error building infrastructure: '' @ message e]\<rparr>)
      | (Inr _, w') \<Rightarrow> build_finish env w')"
  using update_ip_config_returns [of env
      "w\<lparr>stdout := stdout w @ [''[+] Building Azure Attack Range infrastructure...'']\<rparr>"]
  by (auto simp: build_def build_enters_try_def io_defs
        split: prod.splits sum.splits run_error.splits)

lemma build_finish_inventory_failed:
  assumes "fst (create_ansible_inventory env
              (snd (print ''[+] Infrastructure built successfully'' w))) = Inr False"
  shows "build_finish env w =
           (Inr True,
            snd (print (''Warning: Could not generate Ansible inventory; ''
                        @ ''skipping Defender onboarding playbook.'')
                  (snd (create_ansible_inventory env
                     (snd (print ''[+] Infrastructure built successfully'' w))))))"
  using assms
  by (auto simp: build_finish_def io_defs split: prod.splits sum.splits)

lemma build_trace_init:
  "Subprocess init_cmd [] \<in> set (trace (snd (build_try env w)))"
  by (auto simp: build_try_def subprocess_run_check_def Let_def
        split: proc_outcome.splits prod.splits sum.splits)

lemma process_vm_trace:
  "set (trace w) \<subseteq> set (trace (snd (process_vm env rg vm invt w)))"
  unfolding process_vm_def process_vm_try_def io_defs Let_def
  by (auto split: option.splits list.splits sum.splits prod.splits)

lemma process_vms_trace:
  "set (trace w) \<subseteq> set (trace (snd (process_vms env rg vms invt w)))"
proof (induction vms arbitrary: invt w)
  case Nil
  show ?case by (simp add: return_def)
next
  case (Cons vm vms)
  obtain w1 where 1: "process_vm env rg vm invt w = (Inr (add_vm env rg invt vm), w1)"
    using process_vm_result [of env rg vm invt w] by (cases "process_vm env rg vm invt w") auto
  have "set (trace w) \<subseteq> set (trace w1)"
    using process_vm_trace [of w env rg vm invt] 1 by simp
  moreover have "set (trace w1) \<subseteq> set (trace (snd (process_vms env rg vms (add_vm env rg invt vm) w1)))"
    by (rule Cons.IH)
  ultimately show ?case using 1 by (auto simp: bind_def)
qed

lemma create_ansible_inventory_trace:
  "set (trace w) \<subseteq> set (trace (snd (create_ansible_inventory env w)))"
proof -
  have t: "set (trace w') \<subseteq> set (trace (snd (create_ansible_inventory_try env rg i w')))" for w' rg i
  proof -
    let ?w1 = "w'\<lparr>trace := trace w' @ [VmList rg]\<rparr>"
    obtain vms failure where v: "vm_list env rg = (vms, failure)" by (cases "vm_list env rg")
    obtain w2 where 1: "process_vms env rg vms i ?w1 = (Inr (foldl (add_vm env rg) i vms), w2)"
      using process_vms_result [of env rg vms i ?w1]
      by (cases "process_vms env rg vms i ?w1") auto
    have "set (trace ?w1) \<subseteq> set (trace w2)"
      using process_vms_trace [of ?w1 env rg vms i] 1 by simp
    then have "set (trace w') \<subseteq> set (trace w2)" by auto
    then show ?thesis
      using 1 v
      by (auto simp: create_ansible_inventory_try_def io_defs makedirs_def write_file_def
            split: option.splits)
  qed
  let ?w1 = "w\<lparr>stdout := stdout w @ [''[+] Creating Ansible inventory file...'']\<rparr>"
  let ?rg = "config_get env ''resource_group'' ''attack-range-rg''"
  let ?i0 = "initial_inventory (config_get env ''admin_username'' ''azureuser'')
               (str_opt (config env ''admin_password''))"
  have "set (trace w) \<subseteq> set (trace (snd (create_ansible_inventory_try env ?rg ?i0 ?w1)))"
    using t [of ?w1 ?rg ?i0] by simp
  then show ?thesis
    by (cases "create_ansible_inventory_try env ?rg ?i0 ?w1")
       (auto simp: create_ansible_inventory_def io_defs Let_def split: sum.splits)
qed

lemma run_defender_onboarding_trace:
  "set (trace w) \<subseteq> set (trace (snd (run_defender_onboarding env w)))"
  by (auto simp: run_defender_onboarding_def io_defs path_exists_def Let_def
        split: proc_outcome.splits)

lemma build_finish_trace:
  "set (trace w) \<subseteq> set (trace (snd (build_finish env w)))"
proof -
  let ?w1 = "w\<lparr>stdout := stdout w @ [''[+] Infrastructure built successfully'']\<rparr>"
  obtain ok w2 where c: "create_ansible_inventory env ?w1 = (Inr ok, w2)"
    using create_ansible_inventory_returns [of env ?w1]
    by (cases "create_ansible_inventory env ?w1") auto
  have 1: "set (trace w) \<subseteq> set (trace w2)"
    using create_ansible_inventory_trace [of ?w1 env] c by simp
  have 2: "set (trace w2) \<subseteq> set (trace (snd (run_defender_onboarding env w2)))"
    by (rule run_defender_onboarding_trace)
  show ?thesis
    using c 1 2
    by (cases "run_defender_onboarding env w2")
       (auto simp: build_finish_def io_defs split: sum.splits)
qed

lemma build_runs_init:
  "Subprocess init_cmd [] \<in> set (trace (snd (build env w)))"
proof -
  obtain r w1 where t: "build_try env (build_enters_try env w) = (r, w1)"
    by (cases "build_try env (build_enters_try env w)")
  have i: "Subprocess init_cmd [] \<in> set (trace w1)"
    using build_trace_init [of env "build_enters_try env w"] t by simp
  show ?thesis
    unfolding build_unfold t
    using i build_finish_trace [of w1 env]
    by (auto split: sum.splits run_error.splits)
qed

lemma update_runs_apply:
  "OsSystem update_cmd \<in> set (trace (snd (update env w)))"
  using update_ip_config_returns [of env
      "w\<lparr>stdout := stdout w @ [''[+] Updating Azure Attack Range infrastructure...'']\<rparr>"]
  by (auto simp: update_def io_defs Let_def split: prod.splits sum.splits)

text \<open>
  Every run of \<open>create_ansible_inventory\<close> prints its first message, and every run of
  \<open>run_defender_onboarding\<close> prints a line or starts the playbook.
\<close>

lemma process_vm_stdout:
  "prefix (stdout w) (stdout (snd (process_vm env rg vm invt w)))"
  unfolding process_vm_def process_vm_try_def io_defs Let_def
  by (auto split: option.splits list.splits sum.splits prod.splits)

lemma process_vms_stdout:
  "prefix (stdout w) (stdout (snd (process_vms env rg vms invt w)))"
proof (induction vms arbitrary: invt w)
  case Nil
  show ?case by (simp add: return_def)
next
  case (Cons vm vms)
  obtain w1 where 1: "process_vm env rg vm invt w = (Inr (add_vm env rg invt vm), w1)"
    using process_vm_result [of env rg vm invt w] by (cases "process_vm env rg vm invt w") auto
  have "prefix (stdout w) (stdout w1)"
    using process_vm_stdout [of w env rg vm invt] 1 by simp
  moreover have "prefix (stdout w1) (stdout (snd (process_vms env rg vms (add_vm env rg invt vm) w1)))"
    by (rule Cons.IH)
  ultimately show ?case using 1 by (auto simp: bind_def)
qed

lemma create_ansible_inventory_try_stdout:
  "prefix (stdout w) (stdout (snd (create_ansible_inventory_try env rg i w)))"
proof -
  let ?w1 = "w\<lparr>trace := trace w @ [VmList rg]\<rparr>"
  obtain vms failure where v: "vm_list env rg = (vms, failure)" by (cases "vm_list env rg")
  obtain w2 where 1: "process_vms env rg vms i ?w1 = (Inr (foldl (add_vm env rg) i vms), w2)"
    using process_vms_result [of env rg vms i ?w1]
    by (cases "process_vms env rg vms i ?w1") auto
  have "prefix (stdout ?w1) (stdout w2)"
    using process_vms_stdout [of ?w1 env rg vms i] 1 by simp
  then have "prefix (stdout w) (stdout w2)" by simp
  then show ?thesis
    using 1 v
    by (auto simp: create_ansible_inventory_try_def io_defs makedirs_def write_file_def
          split: option.splits)
qed

lemma create_ansible_inventory_announces:
  "prefix (stdout w @ [''[+] Creating Ansible inventory file...''])
     (stdout (snd (create_ansible_inventory env w)))"
proof -
  let ?w1 = "w\<lparr>stdout := stdout w @ [''[+] Creating Ansible inventory file...'']\<rparr>"
  let ?rg = "config_get env ''resource_group'' ''attack-range-rg''"
  let ?i0 = "initial_inventory (config_get env ''admin_username'' ''azureuser'')
               (str_opt (config env ''admin_password''))"
  have "prefix (stdout ?w1) (stdout (snd (create_ansible_inventory_try env ?rg ?i0 ?w1)))"
    by (rule create_ansible_inventory_try_stdout)
  then show ?thesis
    by (cases "create_ansible_inventory_try env ?rg ?i0 ?w1")
       (auto simp: create_ansible_inventory_def io_defs Let_def split: sum.splits)
qed

lemma run_defender_onboarding_leaves_mark:
  "stdout (snd (run_defender_onboarding env w)) \<noteq> stdout w
   \<or> Subprocess playbook_cmd
        [(''DEFENDER_ONBOARDING_SCRIPT'',
          abspath env (str_opt (config env ''defender_onboarding_script'')))]
      \<in> set (trace (snd (run_defender_onboarding env w)))"
  by (auto simp: run_defender_onboarding_def io_defs path_exists_def Let_def
        split: proc_outcome.splits)

section \<open>Inventory generation without an administrator password\<close>

text \<open>
  C4. When the administrator password is absent from the configuration (the key is missing,
  or its value is empty), \<open>create_ansible_inventory\<close> returns \<open>False\<close> after printing
  its first message and the error: the trace of external calls is unchanged, so no machine
  was enumerated and no interface or public address was looked up, and no file was touched.
\<close>

theorem no_password_no_cloud_call:
  assumes "falsy (config env ''admin_password'')"
  shows "create_ansible_inventory env w =
           (Inr False,
            w\<lparr>stdout := stdout w @
                 [''[+] Creating Ansible inventory file...'',
                  ''Error: admin_password not found in configuration'']\<rparr>)
         \<and> trace (snd (create_ansible_inventory env w)) = trace w
         \<and> fs (snd (create_ansible_inventory env w)) = fs w"
  using assms by (simp add: create_ansible_inventory_def io_defs)

theorem no_password_no_cloud_call_witness:
  "falsy (config (sample_env\<lparr>config := Map.empty\<rparr>) ''admin_password'')
   \<and> create_ansible_inventory (sample_env\<lparr>config := Map.empty\<rparr>) sample_world =
       (Inr False,
        sample_world\<lparr>stdout :=
          [''[+] Creating Ansible inventory file...'',
           ''Error: admin_password not found in configuration'']\<rparr>)
   \<and> trace (snd (create_ansible_inventory (sample_env\<lparr>config := Map.empty\<rparr>) sample_world))
       = []"
  using no_password_no_cloud_call [of "sample_env\<lparr>config := Map.empty\<rparr>" sample_world]
  by (simp add: falsy_def sample_world_def)

section \<open>Machines that are skipped\<close>

text \<open>
  C2. A machine with no attached network interface, with no public address on its primary
  interface, or whose processing raises (\<open>process_vm_try\<close> ends in an exception) is
  skipped: \<open>process_vm\<close> returns normally with the inventory as it was; the loop gives
  the same inventory as if the machine had not been listed, so the machines before and
  after it are processed as usual; the machine is absent from both groups unless another
  listed machine bears its name; and when the enumeration itself does not fail and the
  inventory file can be written, \<open>create_ansible_inventory\<close> still returns \<open>True\<close> and
  writes the inventory of the other machines.
\<close>

theorem failing_vm_is_skipped:
  assumes skip:
    "network_profile vm = Some []
     \<or> (\<exists>nic_id rest nic cfgs. network_profile vm = Some (nic_id # rest)
           \<and> nic_get env rg (last_segment nic_id) = Inr nic
           \<and> ip_configurations nic = None # cfgs)
     \<or> (\<exists>e. fst (process_vm_try env rg vm invt w) = Inl e)"
  shows "fst (process_vm env rg vm invt w) = Inr invt
     \<and> fst (process_vms env rg (before @ vm # after) invt w) =
         fst (process_vms env rg (before @ after) invt w)
     \<and> (\<exists>inventory.
           fst (process_vms env rg (before @ vm # after) (initial_inventory user pw) w) = Inr inventory
           \<and> (name vm \<notin> name ` set (before @ after) \<longrightarrow>
                name vm \<notin> fst ` set (windows_hosts inventory)
                \<and> name vm \<notin> fst ` set (linux_hosts inventory)))
     \<and> (\<not> falsy (config env ''admin_password'')
          \<and> rg = config_get env ''resource_group'' ''attack-range-rg''
          \<and> vm_list env rg = (before @ vm # after, None)
          \<and> makedirs_error w ''playbooks'' = None \<and> can_write w inventory_path \<longrightarrow>
        fst (create_ansible_inventory env w) = Inr True
        \<and> (\<exists>inventory.
              fst (process_vms env rg (before @ after)
                     (initial_inventory (config_get env ''admin_username'' ''azureuser'')
                        (str_opt (config env ''admin_password''))) w) = Inr inventory
              \<and> map_option content (fs (snd (create_ansible_inventory env w)) inventory_path) =
                  Some (yaml_dump env inventory)))"
proof -
  from skip have none: "resolved_public_ip env rg vm = None"
    using resolved_None_iff [of env rg vm invt w] by blast
  have 1: "fst (process_vm env rg vm invt w) = Inr invt"
    using process_vm_result [of env rg vm invt w] none by (simp add: add_vm_def)
  have skipl: "\<And>i. foldl (add_vm env rg) i (before @ vm # after) = foldl (add_vm env rg) i (before @ after)"
    using none by (rule foldl_add_vm_skip)
  have 2: "fst (process_vms env rg (before @ vm # after) invt w) =
         fst (process_vms env rg (before @ after) invt w)"
    by (simp only: process_vms_fst skipl)
  let ?inv = "foldl (add_vm env rg) (initial_inventory user pw) (before @ vm # after)"
  have 3: "name vm \<notin> name ` set (before @ after) \<longrightarrow>
                name vm \<notin> fst ` set (windows_hosts ?inv)
                \<and> name vm \<notin> fst ` set (linux_hosts ?inv)"
    unfolding skipl windows_keys_foldl linux_keys_foldl
    by (auto simp: initial_inventory_def)
  have 4: "fst (create_ansible_inventory env w) = Inr True
        \<and> (\<exists>inventory.
              fst (process_vms env rg (before @ after)
                     (initial_inventory (config_get env ''admin_username'' ''azureuser'')
                        (str_opt (config env ''admin_password''))) w) = Inr inventory
              \<and> map_option content (fs (snd (create_ansible_inventory env w)) inventory_path) =
                  Some (yaml_dump env inventory))"
    if h: "\<not> falsy (config env ''admin_password'')"
          "rg = config_get env ''resource_group'' ''attack-range-rg''"
          "vm_list env rg = (before @ vm # after, None)"
          "makedirs_error w ''playbooks'' = None" "can_write w inventory_path"
  proof -
    have l: "vm_list env (config_get env ''resource_group'' ''attack-range-rg'') = (before @ vm # after, None)"
      using h(2,3) by simp
    show ?thesis
      using create_ansible_inventory_success [OF h(1) l h(4) h(5)] h(2) skipl
      by (simp add: process_vms_fst)
  qed
  have c: "\<exists>inventory.
           fst (process_vms env rg (before @ vm # after) (initial_inventory user pw) w) = Inr inventory
           \<and> (name vm \<notin> name ` set (before @ after) \<longrightarrow>
                name vm \<notin> fst ` set (windows_hosts inventory)
                \<and> name vm \<notin> fst ` set (linux_hosts inventory))"
    using 3 process_vms_fst [of env rg "before @ vm # after" "initial_inventory user pw" w]
    by blast
  from 1 2 c 4 show ?thesis by blast
qed

theorem failing_vm_is_skipped_witness:
  "fst (process_vm_try sample_env_broken ''attack-range-rg'' sample_broken_vm
          (initial_inventory ''azureuser'' ''S3cret!'') sample_world)
     = Inl (PyException ''ResourceNotFound'')
   \<and> fst (create_ansible_inventory sample_env_broken sample_world) = Inr True
   \<and> map_option content
         (fs (snd (create_ansible_inventory sample_env_broken sample_world)) inventory_path)
       = Some ''DC01kali-attacker''"
  using failing_vm_is_skipped [of sample_broken_vm sample_env_broken "''attack-range-rg''"
      "initial_inventory ''azureuser'' ''S3cret!''" sample_world
      "[sample_vms ! 0]" "[sample_vms ! 2]" "''azureuser''" "''S3cret!''"]
  by (simp add: sample_defs sample_env_broken_def sample_broken_vm_def inventory_defs
        string_defs io_defs can_write_def Let_def)

section \<open>Classification by name\<close>

text \<open>
  C5. When every listed machine has a resolvable public address (and the enumeration and
  the write of the file succeed), the inventory that \<open>create_ansible_inventory\<close> writes
  has under \<open>windows\<close> exactly the names whose lowered form contains one of the keywords
  \<open>dc\<close>, \<open>workstation\<close>, \<open>win11\<close>, \<open>server2025\<close>, and under \<open>linux\<close> exactly the
  other names whose lowered form contains \<open>kali\<close>; every other machine is left out, and
  the operation returns \<open>True\<close>. For the names DC01, workstation-1, kali-attacker and
  random-box this puts DC01 and workstation-1 under \<open>windows\<close>, kali-attacker under
  \<open>linux\<close>, and random-box nowhere.
\<close>

theorem classification_by_name:
  assumes pw: "\<not> falsy (config env ''admin_password'')"
    and rg: "rg = config_get env ''resource_group'' ''attack-range-rg''"
    and vms: "vm_list env rg = (vms, None)"
    and res: "\<forall>vm \<in> set vms. resolved_public_ip env rg vm \<noteq> None"
    and mk: "makedirs_error w ''playbooks'' = None"
    and wr: "can_write w inventory_path"
  shows "\<exists>inventory.
           fst (process_vms env rg vms
                  (initial_inventory (config_get env ''admin_username'' ''azureuser'')
                     (str_opt (config env ''admin_password''))) w) = Inr inventory
         \<and> fst (create_ansible_inventory env w) = Inr True
         \<and> map_option content (fs (snd (create_ansible_inventory env w)) inventory_path) =
             Some (yaml_dump env inventory)
         \<and> fst ` set (windows_hosts inventory) =
             {n \<in> name ` set vms. \<exists>keyword \<in> set windows_keywords. contains keyword (lower n)}
         \<and> fst ` set (linux_hosts inventory) =
             {n \<in> name ` set vms. (\<forall>keyword \<in> set windows_keywords. \<not> contains keyword (lower n))
                                  \<and> contains ''kali'' (lower n)}
         \<and> (name ` set vms = {''DC01'', ''workstation-1'', ''kali-attacker'', ''random-box''} \<longrightarrow>
              fst ` set (windows_hosts inventory) = {''DC01'', ''workstation-1''}
              \<and> fst ` set (linux_hosts inventory) = {''kali-attacker''})"
proof -
  let ?i0 = "initial_inventory (config_get env ''admin_username'' ''azureuser'')
               (str_opt (config env ''admin_password''))"
  let ?inv = "foldl (add_vm env rg) ?i0 vms"
  have all: "{vm \<in> set vms. resolved_public_ip env rg vm \<noteq> None} = set vms"
    using res by auto
  have win: "fst ` set (windows_hosts ?inv) = {n \<in> name ` set vms. is_windows_name n}"
    unfolding windows_keys_foldl all by (simp add: initial_inventory_def)
  have lin: "fst ` set (linux_hosts ?inv) = {n \<in> name ` set vms. is_linux_name n}"
    unfolding linux_keys_foldl all by (simp add: initial_inventory_def)
  have l: "vm_list env (config_get env ''resource_group'' ''attack-range-rg'') = (vms, None)"
    using rg vms by simp
  note ok = create_ansible_inventory_success [OF pw l mk wr]
  have four: "fst ` set (windows_hosts ?inv) = {''DC01'', ''workstation-1''}
              \<and> fst ` set (linux_hosts ?inv) = {''kali-attacker''}"
    if "name ` set vms = {''DC01'', ''workstation-1'', ''kali-attacker'', ''random-box''}"
    unfolding win lin that
    using is_windows_name_samples is_linux_name_samples by auto
  have a: "fst (process_vms env rg vms ?i0 w) = Inr ?inv"
    by (rule process_vms_fst)
  have b: "map_option content (fs (snd (create_ansible_inventory env w)) inventory_path) =
             Some (yaml_dump env ?inv)"
    using ok(2) rg by simp
  have c: "fst ` set (windows_hosts ?inv) =
             {n \<in> name ` set vms. \<exists>keyword \<in> set windows_keywords. contains keyword (lower n)}"
    using win by (simp add: is_windows_name_iff)
  have d: "fst ` set (linux_hosts ?inv) =
             {n \<in> name ` set vms. (\<forall>keyword \<in> set windows_keywords. \<not> contains keyword (lower n))
                                  \<and> contains ''kali'' (lower n)}"
    using lin by (simp add: is_linux_name_def is_windows_name_iff)
  show ?thesis
  proof (intro exI conjI impI)
    show "fst (process_vms env rg vms ?i0 w) = Inr ?inv" by (rule a)
    show "fst (create_ansible_inventory env w) = Inr True" by (rule ok(1))
    show "map_option content (fs (snd (create_ansible_inventory env w)) inventory_path) =
             Some (yaml_dump env ?inv)" by (rule b)
    show "fst ` set (windows_hosts ?inv) =
             {n \<in> name ` set vms. \<exists>keyword \<in> set windows_keywords. contains keyword (lower n)}"
      by (rule c)
    show "fst ` set (linux_hosts ?inv) =
             {n \<in> name ` set vms. (\<forall>keyword \<in> set windows_keywords. \<not> contains keyword (lower n))
                                  \<and> contains ''kali'' (lower n)}"
      by (rule d)
  next
    assume "name ` set vms = {''DC01'', ''workstation-1'', ''kali-attacker'', ''random-box''}"
    from four [OF this]
    show "fst ` set (windows_hosts ?inv) = {''DC01'', ''workstation-1''}" by (rule conjunct1)
  next
    assume "name ` set vms = {''DC01'', ''workstation-1'', ''kali-attacker'', ''random-box''}"
    from four [OF this]
    show "fst ` set (linux_hosts ?inv) = {''kali-attacker''}" by (rule conjunct2)
  qed
qed

theorem classification_by_name_witness:
  "\<not> falsy (config sample_env ''admin_password'')
   \<and> vm_list sample_env ''attack-range-rg'' = (sample_vms, None)
   \<and> map (resolved_public_ip sample_env ''attack-range-rg'') sample_vms =
       [Some (Some ''20.0.0.4''), Some (Some ''20.0.0.4''),
        Some (Some ''20.0.0.4''), Some (Some ''20.0.0.4'')]
   \<and> name ` set sample_vms = {''DC01'', ''workstation-1'', ''kali-attacker'', ''random-box''}
   \<and> fst (create_ansible_inventory sample_env sample_world) = Inr True
   \<and> (\<exists>inventory.
         fst (process_vms sample_env ''attack-range-rg'' sample_vms
                (initial_inventory ''azureuser'' ''S3cret!'') sample_world) = Inr inventory
         \<and> map_option content
              (fs (snd (create_ansible_inventory sample_env sample_world)) inventory_path)
            = Some (yaml_dump sample_env inventory)
         \<and> fst ` set (windows_hosts inventory) = {''DC01'', ''workstation-1''}
         \<and> fst ` set (linux_hosts inventory) = {''kali-attacker''})"
proof -
  have h: "\<not> falsy (config sample_env ''admin_password'')"
    "''attack-range-rg'' = config_get sample_env ''resource_group'' ''attack-range-rg''"
    "vm_list sample_env ''attack-range-rg'' = (sample_vms, None)"
    "makedirs_error sample_world ''playbooks'' = None"
    "can_write sample_world inventory_path"
    by (simp_all add: sample_defs falsy_def config_get_def can_write_def)
  have n: "name ` set sample_vms = {''DC01'', ''workstation-1'', ''kali-attacker'', ''random-box''}"
    by (simp add: sample_vms_def)
  have u: "config_get sample_env ''admin_username'' ''azureuser'' = ''azureuser''"
    "str_opt (config sample_env ''admin_password'') = ''S3cret!''"
    by (simp_all add: sample_env_def config_get_def str_opt_def)
  have r: "map (resolved_public_ip sample_env ''attack-range-rg'') sample_vms =
       [Some (Some ''20.0.0.4''), Some (Some ''20.0.0.4''),
        Some (Some ''20.0.0.4''), Some (Some ''20.0.0.4'')]"
    by (simp add: sample_defs resolved_public_ip_def string_defs)
  from classification_by_name [OF h(1) h(2) h(3) sample_resolved h(4) h(5)]
  obtain inventory where
    p: "fst (process_vms sample_env ''attack-range-rg'' sample_vms
                  (initial_inventory (config_get sample_env ''admin_username'' ''azureuser'')
                     (str_opt (config sample_env ''admin_password''))) sample_world) = Inr inventory"
      "fst (create_ansible_inventory sample_env sample_world) = Inr True"
      "map_option content (fs (snd (create_ansible_inventory sample_env sample_world)) inventory_path) =
             Some (yaml_dump sample_env inventory)"
      "name ` set sample_vms = {''DC01'', ''workstation-1'', ''kali-attacker'', ''random-box''} \<longrightarrow>
              fst ` set (windows_hosts inventory) = {''DC01'', ''workstation-1''}
              \<and> fst ` set (linux_hosts inventory) = {''kali-attacker''}"
    by (elim exE conjE)
  from p(4) [rule_format, OF n]
  have q: "fst ` set (windows_hosts inventory) = {''DC01'', ''workstation-1''}"
      "fst ` set (linux_hosts inventory) = {''kali-attacker''}"
    by (rule conjunct1, rule conjunct2)
  show ?thesis
  proof (intro conjI exI)
    show "fst (process_vms sample_env ''attack-range-rg'' sample_vms
                (initial_inventory ''azureuser'' ''S3cret!'') sample_world) = Inr inventory"
      using p(1) unfolding u .
  qed (rule h(1) h(3) r n p(2) p(3) q)+
qed

section \<open>No machine in two groups\<close>

text \<open>
  C9. Whatever machines are listed, the host names under \<open>windows\<close> and under \<open>linux\<close>
  in the inventory the loop builds are disjoint. The \<open>windows\<close> test comes first: a name
  whose lowered form contains both a \<open>windows\<close> keyword and \<open>kali\<close>, such as kali-dc, is
  entered under \<open>windows\<close> and the \<open>linux\<close> group is left as it was.
\<close>

theorem groups_are_disjoint:
  "(\<exists>inventory.
      fst (process_vms env rg vms (initial_inventory user pw) w) = Inr inventory
      \<and> fst ` set (windows_hosts inventory) \<inter> fst ` set (linux_hosts inventory) = {})
   \<and> ((\<exists>keyword \<in> set windows_keywords. contains keyword (lower vm_name))
        \<and> contains ''kali'' (lower vm_name) \<longrightarrow>
      classify vm_name public_ip invt =
        invt\<lparr>windows_hosts :=
          AList.update vm_name (WindowsHost public_ip 60 70 [''defender_for_endpoint''])
            (windows_hosts invt)\<rparr>)"
proof -
  let ?inv = "foldl (add_vm env rg) (initial_inventory user pw) vms"
  have "fst ` set (windows_hosts ?inv) \<subseteq> {n. is_windows_name n}"
    unfolding windows_keys_foldl by (auto simp: initial_inventory_def)
  moreover have "fst ` set (linux_hosts ?inv) \<subseteq> {n. \<not> is_windows_name n}"
    unfolding linux_keys_foldl by (auto simp: initial_inventory_def is_linux_name_def)
  ultimately have "fst ` set (windows_hosts ?inv) \<inter> fst ` set (linux_hosts ?inv) = {}"
    by blast
  then have "\<exists>inventory.
      fst (process_vms env rg vms (initial_inventory user pw) w) = Inr inventory
      \<and> fst ` set (windows_hosts inventory) \<inter> fst ` set (linux_hosts inventory) = {}"
    using process_vms_fst [of env rg vms "initial_inventory user pw" w] by blast
  then show ?thesis
    by (simp add: classify_cases is_windows_name_iff)
qed

theorem groups_are_disjoint_witness:
  "(\<exists>keyword \<in> set windows_keywords. contains keyword (lower ''kali-dc''))
   \<and> contains ''kali'' (lower ''kali-dc'')
   \<and> windows_hosts (classify ''kali-dc'' (Some ''20.0.0.4'') (initial_inventory ''azureuser'' ''S3cret!''))
       = [(''kali-dc'', WindowsHost (Some ''20.0.0.4'') 60 70 [''defender_for_endpoint''])]
   \<and> linux_hosts (classify ''kali-dc'' (Some ''20.0.0.4'') (initial_inventory ''azureuser'' ''S3cret!''))
       = []"
  using groups_are_disjoint [of sample_env "''attack-range-rg''" sample_vms "''azureuser''"
      "''S3cret!''" sample_world "''kali-dc''" "Some ''20.0.0.4''"
      "initial_inventory ''azureuser'' ''S3cret!''"]
  by (simp add: windows_keywords_def string_defs initial_inventory_def)

section \<open>Rewriting the values file\<close>




section \<open>Appending to the values file\<close>



section \<open>The declarations file\<close>

text \<open>
  C6. If \<open>allowed_ip\<close> occurs anywhere in the declarations file, the sync leaves that file
  exactly as it was, whatever else happens. If it does not occur, and the sync reaches the
  declarations step (the lookup answered and the values file, when present, could be read
  and written) and the file can be read and appended to, then the file afterwards is its
  prior text followed by one declaration block: two line feeds, the opening line of the
  variable, its description, its type, its default of 0.0.0.0/0, and the closing brace.
\<close>

theorem declaration_appended_when_absent:
  "(fs w variables_tf = Some g \<and> contains ''allowed_ip'' (content g) \<longrightarrow>
      fs (snd (update_ip_config env w)) variables_tf = Some g)
   \<and> (fs w variables_tf = Some g \<and> \<not> contains ''allowed_ip'' (content g)
        \<and> read_error g = None \<and> write_error g = None
        \<and> ip_lookup env = Inr ip
        \<and> (case fs w tfvars_path of
              None \<Rightarrow> True
            | Some f \<Rightarrow> read_error f = None \<and> write_error f = None) \<longrightarrow>
      fs (snd (update_ip_config env w)) variables_tf =
        Some (g\<lparr>content := content g @ variable_block\<rparr>))
   \<and> readlines variable_block =
        [[NL], [NL],
         ''variable '' @ [DQ] @ ''allowed_ip'' @ [DQ] @ '' {'' @ [NL],
         ''  description = '' @ [DQ]
           @ ''IP address allowed to connect to the Attack Range'' @ [DQ, NL],
         ''  type        = string'' @ [NL],
         ''  default     = '' @ [DQ] @ ''0.0.0.0/0'' @ [DQ, NL],
         ''}'' @ [NL]]"
proof (intro conjI impI)
  let ?w1 = "w\<lparr>trace := trace w @ [HttpGet ''https://api.ipify.org?format=json'']\<rparr>"
  have v: "variables_tf \<noteq> tfvars_path" using tfvars_not_variables_tf by simp
  {
    assume a: "fs w variables_tf = Some g \<and> contains ''allowed_ip'' (content g)"
    have t: "fs (snd (update_tfvars cur ?w1)) variables_tf = Some g" for cur
      using update_tfvars_other_files [OF v, of cur ?w1] a by simp
    from update_ip_config_try_cases [of env w]
    have "fs (snd (update_ip_config_try env w)) variables_tf = Some g"
    proof (elim disjE exE conjE)
      fix e assume "update_ip_config_try env w = (Inl e, ?w1)"
      then show ?thesis using a by simp
    next
      fix ip e
      assume "update_ip_config_try env w = (Inl e, snd (update_tfvars (ip @ ''/32'') ?w1))"
      then show ?thesis using t by simp
    next
      fix ip w2
      assume u: "update_tfvars (ip @ ''/32'') ?w1 = (Inr (), w2)"
        and b: "update_ip_config_try env w =
            update_variables_tf
              (w2\<lparr>stdout := stdout w2 @ [''[+] Updated allowed IP to: '' @ ip @ ''/32'']\<rparr>)"
      let ?w3 = "w2\<lparr>stdout := stdout w2 @ [''[+] Updated allowed IP to: '' @ ip @ ''/32'']\<rparr>"
      have "fs ?w3 variables_tf = Some g" using t [of "ip @ ''/32''"] u by simp
      then have "fs (snd (update_variables_tf ?w3)) = fs ?w3"
        using a by (intro update_variables_tf_present) auto
      then show ?thesis using b \<open>fs ?w3 variables_tf = Some g\<close> by simp
    qed
    then show "fs (snd (update_ip_config env w)) variables_tf = Some g"
      by (simp add: update_ip_config_files)
  }
  {
    assume a: "fs w variables_tf = Some g \<and> \<not> contains ''allowed_ip'' (content g)
        \<and> read_error g = None \<and> write_error g = None
        \<and> ip_lookup env = Inr ip
        \<and> (case fs w tfvars_path of
              None \<Rightarrow> True
            | Some f \<Rightarrow> read_error f = None \<and> write_error f = None)"
    let ?cur = "ip @ ''/32''"
    have ok: "fst (update_tfvars ?cur ?w1) = Inr ()"
      using a by (intro update_tfvars_ok) simp
    then obtain w2 where u: "update_tfvars ?cur ?w1 = (Inr (), w2)"
      by (cases "update_tfvars ?cur ?w1") auto
    let ?w3 = "w2\<lparr>stdout := stdout w2 @ [''[+] Updated allowed IP to: '' @ ?cur]\<rparr>"
    have g: "fs ?w3 variables_tf = Some g"
      using update_tfvars_other_files [OF v, of ?cur ?w1] a u by simp
    have b: "update_ip_config_try env w = update_variables_tf ?w3"
      using a u by (simp add: update_ip_config_try_def io_defs Let_def)
    have "update_variables_tf ?w3 =
           (Inr (), ?w3\<lparr>fs := (fs ?w3)(variables_tf \<mapsto> g\<lparr>content := content g @ variable_block\<rparr>)\<rparr>)"
      using g a by (intro update_variables_tf_absent) auto
    then show "fs (snd (update_ip_config env w)) variables_tf =
        Some (g\<lparr>content := content g @ variable_block\<rparr>)"
      by (simp add: update_ip_config_files b)
  }
  show "readlines variable_block =
        [[NL], [NL],
         ''variable '' @ [DQ] @ ''allowed_ip'' @ [DQ] @ '' {'' @ [NL],
         ''  description = '' @ [DQ]
           @ ''IP address allowed to connect to the Attack Range'' @ [DQ, NL],
         ''  type        = string'' @ [NL],
         ''  default     = '' @ [DQ] @ ''0.0.0.0/0'' @ [DQ, NL],
         ''}'' @ [NL]]"
    by (simp add: variable_block_def)
qed

theorem declaration_appended_when_absent_witness:
  "contains ''allowed_ip'' (content (plain_file declared_text))
   \<and> fs (snd (update_ip_config sample_env (world_with variables_tf (plain_file declared_text))))
        variables_tf = Some (plain_file declared_text)
   \<and> \<not> contains ''allowed_ip'' (content (plain_file undeclared_text))
   \<and> fs (snd (update_ip_config sample_env (world_with variables_tf (plain_file undeclared_text))))
        variables_tf = Some (plain_file (undeclared_text @ variable_block))"
  using declaration_appended_when_absent [of
      "world_with variables_tf (plain_file declared_text)" "plain_file declared_text"
      sample_env "''203.0.113.7''"]
    declaration_appended_when_absent [of
      "world_with variables_tf (plain_file undeclared_text)" "plain_file undeclared_text"
      sample_env "''203.0.113.7''"]
  by (simp add: eval_defs declared_text_def undeclared_text_def)

section \<open>The sync never raises\<close>

text \<open>
  C8, as the code has it. \<open>update_ip_config\<close> always returns normally. Whenever the body
  of its \<open>try\<close> raises (the lookup fails, or a file that exists cannot be opened), the
  world at that moment is kept and the two warning lines are printed; when the body raises
  nothing, no warning is printed. A file that does not exist is not an error: the test of
  \<open>os.path.exists\<close> skips its step, which raises nothing and changes nothing, so that with
  both files missing and the lookup answering the sync only records the lookup and prints
  the success message. In every case \<open>build\<close> goes on to run \<open>terraform init\<close> and
  \<open>update\<close> goes on to run \<open>terraform apply\<close>.
\<close>

theorem update_ip_config_never_raises:
  "fst (update_ip_config env w) = Inr ()
   \<and> (\<forall>e w'. update_ip_config_try env w = (Inl e, w') \<longrightarrow>
         snd (update_ip_config env w) =
           w'\<lparr>stdout := stdout w' @
                [''Warning: Could not update IP configuration: '' @ message e,
                 ''Continuing with existing configuration...'']\<rparr>)
   \<and> (\<forall>u w'. update_ip_config_try env w = (Inr u, w') \<longrightarrow>
         snd (update_ip_config env w) = w')
   \<and> (fs w tfvars_path = None \<longrightarrow> update_tfvars current_ip w = (Inr (), w))
   \<and> (fs w variables_tf = None \<longrightarrow> update_variables_tf w = (Inr (), w))
   \<and> (fs w tfvars_path = None \<and> fs w variables_tf = None \<and> ip_lookup env = Inr ip \<longrightarrow>
         update_ip_config env w = (Inr (), after_lookup (ip @ ''/32'') w))
   \<and> Subprocess init_cmd [] \<in> set (trace (snd (build env w)))
   \<and> OsSystem update_cmd \<in> set (trace (snd (update env w)))"
proof (intro conjI)
  show "fst (update_ip_config env w) = Inr ()"
    by (rule update_ip_config_returns)
  show "\<forall>e w'. update_ip_config_try env w = (Inl e, w') \<longrightarrow>
         snd (update_ip_config env w) =
           w'\<lparr>stdout := stdout w' @
                [''Warning: Could not update IP configuration: '' @ message e,
                 ''Continuing with existing configuration...'']\<rparr>"
    by (simp add: update_ip_config_def io_defs)
  show "\<forall>u w'. update_ip_config_try env w = (Inr u, w') \<longrightarrow>
         snd (update_ip_config env w) = w'"
    by (simp add: update_ip_config_def io_defs)
  show "fs w tfvars_path = None \<longrightarrow> update_tfvars current_ip w = (Inr (), w)"
    by (simp add: update_tfvars_def path_exists_def io_defs)
  show "fs w variables_tf = None \<longrightarrow> update_variables_tf w = (Inr (), w)"
    by (simp add: update_variables_tf_def path_exists_def io_defs)
  show "fs w tfvars_path = None \<and> fs w variables_tf = None \<and> ip_lookup env = Inr ip \<longrightarrow>
         update_ip_config env w = (Inr (), after_lookup (ip @ ''/32'') w)"
    by (simp add: update_ip_config_def update_ip_config_try_def update_tfvars_def
          update_variables_tf_def path_exists_def io_defs after_lookup_def Let_def)
  show "Subprocess init_cmd [] \<in> set (trace (snd (build env w)))"
    by (rule build_runs_init)
  show "OsSystem update_cmd \<in> set (trace (snd (update env w)))"
    by (rule update_runs_apply)
qed

theorem update_ip_config_never_raises_witness:
  "update_ip_config_try (sample_env\<lparr>ip_lookup := Inl (PyException ''Connection refused'')\<rparr>)
       sample_world =
     (Inl (PyException ''Connection refused''),
      sample_world\<lparr>trace := [HttpGet ''https://api.ipify.org?format=json'']\<rparr>)
   \<and> update_ip_config (sample_env\<lparr>ip_lookup := Inl (PyException ''Connection refused'')\<rparr>)
       sample_world =
     (Inr (),
      sample_world
        \<lparr>trace := [HttpGet ''https://api.ipify.org?format=json''],
         stdout := [''Warning: Could not update IP configuration: Connection refused'',
                    ''Continuing with existing configuration...'']\<rparr>)
   \<and> update_ip_config_try sample_env (world_with tfvars_path (denied_file old_assign_line)) =
     (Inl (PyException ''[Errno 13] Permission denied''),
      (world_with tfvars_path (denied_file old_assign_line))
        \<lparr>trace := [HttpGet ''https://api.ipify.org?format=json'']\<rparr>)
   \<and> update_ip_config sample_env (world_with tfvars_path (denied_file old_assign_line)) =
     (Inr (),
      (world_with tfvars_path (denied_file old_assign_line))
        \<lparr>trace := [HttpGet ''https://api.ipify.org?format=json''],
         stdout := [''Warning: Could not update IP configuration: [Errno 13] Permission denied'',
                    ''Continuing with existing configuration...'']\<rparr>)
   \<and> fs sample_world tfvars_path = None
   \<and> fs sample_world variables_tf = None
   \<and> ip_lookup sample_env = Inr ''203.0.113.7''
   \<and> update_ip_config sample_env sample_world =
     (Inr (), after_lookup ''203.0.113.7/32'' sample_world)"
  using update_ip_config_never_raises [of
      "sample_env\<lparr>ip_lookup := Inl (PyException ''Connection refused'')\<rparr>" sample_world
      "''203.0.113.7/32''" "''203.0.113.7''"]
    update_ip_config_never_raises [of sample_env
      "world_with tfvars_path (denied_file old_assign_line)"
      "''203.0.113.7/32''" "''203.0.113.7''"]
    update_ip_config_never_raises [of sample_env sample_world
      "''203.0.113.7/32''" "''203.0.113.7''"]
  by (simp add: eval_defs denied_file_def after_lookup_def)

text \<open>
  C8 as stated fails for missing files: with neither the values file nor the declarations
  file present, nothing is caught and no warning is logged; the success message is the
  only line printed.
\<close>

theorem missing_files_no_warning_counterexample:
  "fs sample_world tfvars_path = None
   \<and> fs sample_world variables_tf = None
   \<and> update_ip_config sample_env sample_world =
     (Inr (),
      sample_world
        \<lparr>trace := [HttpGet ''https://api.ipify.org?format=json''],
         stdout := [''[+] Updated allowed IP to: 203.0.113.7/32'']\<rparr>)"
  by (simp add: eval_defs)

section \<open>A missing values file\<close>

text \<open>
  C10. When the values file does not exist and the lookup answers, \<open>update_ip_config\<close>
  prints the success message for the new address and goes on to the declarations step in
  a world that differs from the initial one by the lookup event and that message only. The
  values file still does not exist afterwards, and if the declarations step raises nothing
  then the success message is all that was printed: no warning.
\<close>

theorem missing_tfvars_is_not_an_error:
  assumes "fs w tfvars_path = None" and "ip_lookup env = Inr ip"
  shows "update_ip_config env w =
           (case update_variables_tf (after_lookup (ip @ ''/32'') w) of
              (Inl e, w') \<Rightarrow>
                (Inr (), w'\<lparr>stdout := stdout w' @
                   [''Warning: Could not update IP configuration: '' @ message e,
                    ''Continuing with existing configuration...'']\<rparr>)
            | (Inr u, w') \<Rightarrow> (Inr (), w'))
       \<and> fs (snd (update_ip_config env w)) tfvars_path = None
       \<and> (\<forall>u w'. update_variables_tf (after_lookup (ip @ ''/32'') w) = (Inr u, w') \<longrightarrow>
             stdout (snd (update_ip_config env w)) =
               stdout w @ [''[+] Updated allowed IP to: '' @ ip @ ''/32''])"
proof -
  let ?w1 = "after_lookup (ip @ ''/32'') w"
  have eq: "update_ip_config env w =
           (case update_variables_tf ?w1 of
              (Inl e, w') \<Rightarrow>
                (Inr (), w'\<lparr>stdout := stdout w' @
                   [''Warning: Could not update IP configuration: '' @ message e,
                    ''Continuing with existing configuration...'']\<rparr>)
            | (Inr u, w') \<Rightarrow> (Inr (), w'))"
    using assms
    by (simp add: update_ip_config_def update_ip_config_try_def update_tfvars_def path_exists_def
          io_defs after_lookup_def Let_def split: prod.splits sum.splits)
  have f: "fs (snd (update_variables_tf ?w1)) tfvars_path = None"
    using update_variables_tf_other_files [OF tfvars_not_variables_tf, of ?w1] assms(1)
    by (simp add: after_lookup_def)
  have s: "stdout (snd (update_variables_tf ?w1)) =
             stdout w @ [''[+] Updated allowed IP to: '' @ ip @ ''/32'']"
    by (simp add: update_variables_tf_stdout after_lookup_def)
  show ?thesis
    unfolding eq using f s
    by (cases "update_variables_tf ?w1") (auto split: sum.splits)
qed

theorem missing_tfvars_is_not_an_error_witness:
  "fs (world_with variables_tf (plain_file undeclared_text)) tfvars_path = None
   \<and> ip_lookup sample_env = Inr ''203.0.113.7''
   \<and> update_ip_config sample_env (world_with variables_tf (plain_file undeclared_text)) =
     (Inr (),
      sample_world
        \<lparr>fs := [variables_tf \<mapsto> plain_file (undeclared_text @ variable_block)],
         trace := [HttpGet ''https://api.ipify.org?format=json''],
         stdout := [''[+] Updated allowed IP to: 203.0.113.7/32'']\<rparr>)"
  using missing_tfvars_is_not_an_error [of
      "world_with variables_tf (plain_file undeclared_text)" sample_env "''203.0.113.7''"]
  by (simp add: eval_defs undeclared_text_def after_lookup_def)

section \<open>Failure of the infrastructure steps\<close>

text \<open>
  C3. When \<open>terraform init\<close> exits non-zero or raises, or it exits with 0 and
  \<open>terraform apply\<close> exits non-zero or raises, \<open>build\<close> returns \<open>False\<close>, and the world it
  leaves is the one in which it entered its \<open>try\<close> with only the subprocess events of the
  steps run and one error line added: no cloud call, no inventory file, no message of
  \<open>create_ansible_inventory\<close> or \<open>run_defender_onboarding\<close>, no playbook run, although
  every run of either leaves such a mark (\<open>create_ansible_inventory_announces\<close>,
  \<open>run_defender_onboarding_leaves_mark\<close>). When both
  steps exit with 0 and \<open>create_ansible_inventory\<close> returns \<open>False\<close>, \<open>build\<close> returns
  \<open>True\<close>, and the world it leaves is the one \<open>create_ansible_inventory\<close> left with only
  the warning line added.
\<close>

theorem build_stops_when_terraform_fails:
  "(run_process env init_cmd \<noteq> Exited 0 \<longrightarrow>
      build env w =
        (Inr False,
         (build_enters_try env w)
           \<lparr>trace := trace (build_enters_try env w) @ [Subprocess init_cmd []],
            stdout := stdout (build_enters_try env w) @
              [case run_process env init_cmd of
                 Exited rc \<Rightarrow>
                   ''Error building infrastructure: Terraform exited with code '' @ str_int rc
               | Raised e \<Rightarrow> ''Error building infrastructure: '' @ message e]\<rparr>))
   \<and> (run_process env init_cmd = Exited 0 \<and> run_process env apply_cmd \<noteq> Exited 0 \<longrightarrow>
      build env w =
        (Inr False,
         (build_enters_try env w)
           \<lparr>trace := trace (build_enters_try env w)
              @ [Subprocess init_cmd [], Subprocess apply_cmd []],
            stdout := stdout (build_enters_try env w) @
              [case run_process env apply_cmd of
                 Exited rc \<Rightarrow>
                   ''Error building infrastructure: Terraform exited with code '' @ str_int rc
               | Raised e \<Rightarrow> ''Error building infrastructure: '' @ message e]\<rparr>))
   \<and> (run_process env init_cmd = Exited 0 \<and> run_process env apply_cmd = Exited 0
        \<and> fst (create_ansible_inventory env
                 ((build_enters_try env w)
                    \<lparr>trace := trace (build_enters_try env w)
                       @ [Subprocess init_cmd [], Subprocess apply_cmd []],
                     stdout := stdout (build_enters_try env w)
                       @ [''[+] Infrastructure built successfully'']\<rparr>)) = Inr False \<longrightarrow>
      build env w =
        (Inr True,
         snd (print (''Warning: Could not generate Ansible inventory; ''
                     @ ''skipping Defender onboarding playbook.'')
               (snd (create_ansible_inventory env
                 ((build_enters_try env w)
                    \<lparr>trace := trace (build_enters_try env w)
                       @ [Subprocess init_cmd [], Subprocess apply_cmd []],
                     stdout := stdout (build_enters_try env w)
                       @ [''[+] Infrastructure built successfully'']\<rparr>))))))"
proof (intro conjI impI)
  assume "run_process env init_cmd \<noteq> Exited 0"
  then show "build env w =
        (Inr False,
         (build_enters_try env w)
           \<lparr>trace := trace (build_enters_try env w) @ [Subprocess init_cmd []],
            stdout := stdout (build_enters_try env w) @
              [case run_process env init_cmd of
                 Exited rc \<Rightarrow>
                   ''Error building infrastructure: Terraform exited with code '' @ str_int rc
               | Raised e \<Rightarrow> ''Error building infrastructure: '' @ message e]\<rparr>)"
    unfolding build_unfold
    by (cases "run_process env init_cmd")
       (simp_all add: build_try_def subprocess_run_check_def)
next
  assume "run_process env init_cmd = Exited 0 \<and> run_process env apply_cmd \<noteq> Exited 0"
  then show "build env w =
        (Inr False,
         (build_enters_try env w)
           \<lparr>trace := trace (build_enters_try env w)
              @ [Subprocess init_cmd [], Subprocess apply_cmd []],
            stdout := stdout (build_enters_try env w) @
              [case run_process env apply_cmd of
                 Exited rc \<Rightarrow>
                   ''Error building infrastructure: Terraform exited with code '' @ str_int rc
               | Raised e \<Rightarrow> ''Error building infrastructure: '' @ message e]\<rparr>)"
    unfolding build_unfold
    by (cases "run_process env apply_cmd")
       (simp_all add: build_try_def subprocess_run_check_def)
next
  let ?w2 = "(build_enters_try env w)
                    \<lparr>trace := trace (build_enters_try env w)
                       @ [Subprocess init_cmd [], Subprocess apply_cmd []],
                     stdout := stdout (build_enters_try env w)
                       @ [''[+] Infrastructure built successfully'']\<rparr>"
  assume a: "run_process env init_cmd = Exited 0 \<and> run_process env apply_cmd = Exited 0
        \<and> fst (create_ansible_inventory env ?w2) = Inr False"
  let ?w1 = "(build_enters_try env w)
                    \<lparr>trace := trace (build_enters_try env w)
                       @ [Subprocess init_cmd [], Subprocess apply_cmd []]\<rparr>"
  have t: "build_try env (build_enters_try env w) = (Inr (), ?w1)"
    using a by (simp add: build_try_def subprocess_run_check_def)
  have p: "snd (print ''[+] Infrastructure built successfully'' ?w1) = ?w2"
    by (simp add: print_def)
  show "build env w =
        (Inr True,
         snd (print (''Warning: Could not generate Ansible inventory; ''
                     @ ''skipping Defender onboarding playbook.'')
               (snd (create_ansible_inventory env ?w2))))"
    unfolding build_unfold t
    using build_finish_inventory_failed [of env ?w1] a
    by (simp add: p)
qed

theorem build_stops_when_terraform_fails_witness:
  "build sample_env_init_raises sample_world =
     (Inr False,
      sample_world
        \<lparr>stdout := [''[+] Building Azure Attack Range infrastructure...'',
                     ''[+] Updated allowed IP to: 203.0.113.7/32'',
                     ''Error building infrastructure: [Errno 2] No such file or directory: terraform''],
         trace := [HttpGet ''https://api.ipify.org?format=json'', Subprocess init_cmd []]\<rparr>)
   \<and> build sample_env_apply_fails sample_world =
     (Inr False,
      sample_world
        \<lparr>stdout := [''[+] Building Azure Attack Range infrastructure...'',
                     ''[+] Updated allowed IP to: 203.0.113.7/32'',
                     ''Error building infrastructure: Terraform exited with code 1''],
         trace := [HttpGet ''https://api.ipify.org?format=json'',
                   Subprocess init_cmd [], Subprocess apply_cmd []]\<rparr>)
   \<and> build sample_env_no_password sample_world =
     (Inr True,
      sample_world
        \<lparr>stdout := [''[+] Building Azure Attack Range infrastructure...'',
                     ''[+] Updated allowed IP to: 203.0.113.7/32'',
                     ''[+] Infrastructure built successfully'',
                     ''[+] Creating Ansible inventory file...'',
                     ''Error: admin_password not found in configuration'',
                     ''Warning: Could not generate Ansible inventory; ''
                       @ ''skipping Defender onboarding playbook.''],
         trace := [HttpGet ''https://api.ipify.org?format=json'',
                   Subprocess init_cmd [], Subprocess apply_cmd []]\<rparr>)"
  using build_stops_when_terraform_fails [of sample_env_init_raises sample_world]
    build_stops_when_terraform_fails [of sample_env_apply_fails sample_world]
    build_stops_when_terraform_fails [of sample_env_no_password sample_world]
  by (simp add: sample_env_init_raises_def sample_env_apply_fails_def
        sample_env_no_password_def sample_defs build_defs update_ip_defs io_defs
        create_ansible_inventory_def falsy_def Let_def)

end
